theory Spec2Isabelle
  imports Main "HOL-Library.Word" "HOL-Library.AList"
begin

text \<open>
  A shallow embedding of the OAuth authorization broker: the CSRF, state, session-binding
  and approval utilities, the helpers for the identity provider and the backend sign-in,
  and the three handlers \<open>GET /authorize\<close>, \<open>POST /authorize\<close> and \<open>GET /callback\<close>.
  Asynchronous functions are modelled by the value they resolve to; a thrown exception is
  the left summand of the result. The key-value store and the calls to outside services
  are threaded through the functions as a state.
\<close>

section \<open>Strings as the handlers use them\<close>

text \<open>
  A JavaScript string is a list of 16-bit code units. A literal of the source is written
  \<open>js ''...''\<close>, one code unit for each of its characters. The string operations the
  handlers call are written out on lists.
\<close>

type_synonym code_unit = "16 word"

type_synonym jsstring = "code_unit list"

definition cu :: "char \<Rightarrow> code_unit" where
  "cu c = of_nat (of_char c)"

definition js :: "string \<Rightarrow> jsstring" where
  "js s = map cu s"

definition is_js_space :: "code_unit \<Rightarrow> bool" where
  \<comment> \<open>the white space and line terminators \<open>String.prototype.trim\<close> strips\<close>
  "is_js_space c =
     (c = 0x0009 \<or> c = 0x000A \<or> c = 0x000B \<or> c = 0x000C \<or> c = 0x000D \<or> c = 0x0020
      \<or> c = 0x00A0 \<or> c = 0x1680 \<or> (0x2000 \<le> c \<and> c \<le> 0x200A) \<or> c = 0x2028
      \<or> c = 0x2029 \<or> c = 0x202F \<or> c = 0x205F \<or> c = 0x3000 \<or> c = 0xFEFF)"

definition js_trim :: "jsstring \<Rightarrow> jsstring" where
  "js_trim s = rev (dropWhile is_js_space (rev (dropWhile is_js_space s)))"

fun js_split :: "code_unit \<Rightarrow> jsstring \<Rightarrow> jsstring list" where
  \<comment> \<open>\<open>s.split(sep)\<close> for a separator of one character; the empty string gives \<open>[""]\<close>\<close>
  "js_split sep [] = [[]]"
| "js_split sep (c # cs) =
     (if c = sep then [] # js_split sep cs
      else (case js_split sep cs of
              [] \<Rightarrow> [[c]]
            | w # ws \<Rightarrow> (c # w) # ws))"

fun js_join :: "jsstring \<Rightarrow> jsstring list \<Rightarrow> jsstring" where
  "js_join sep [] = []"
| "js_join sep [x] = x"
| "js_join sep (x # y # ys) = x @ sep @ js_join sep (y # ys)"

fun lastIndexOf :: "code_unit \<Rightarrow> jsstring \<Rightarrow> nat option" where
  \<comment> \<open>\<open>s.lastIndexOf(c)\<close>; \<open>None\<close> stands for -1\<close>
  "lastIndexOf c [] = None"
| "lastIndexOf c (x # xs) =
     (case lastIndexOf c xs of
        Some i \<Rightarrow> Some (Suc i)
      | None \<Rightarrow> (if x = c then Some 0 else None))"

definition hexdigit :: "nat \<Rightarrow> code_unit" where
  "hexdigit n = js ''0123456789abcdef'' ! (n mod 16)"

definition hex2 :: "8 word \<Rightarrow> jsstring" where
  \<comment> \<open>\<open>b.toString(16).padStart(2, "0")\<close> for a byte\<close>
  "hex2 b = [hexdigit (unat b div 16), hexdigit (unat b mod 16)]"

definition hex_of_bytes :: "8 word list \<Rightarrow> jsstring" where
  "hex_of_bytes bs = concat (map hex2 bs)"

section \<open>Requests, responses and errors\<close>

datatype form_value = FormString jsstring | FormFile

record request =
  url_protocol :: jsstring
  url_hostname :: jsstring
  url_port :: jsstring
  url_query :: "(jsstring \<times> jsstring) list"
  cookie_header :: "jsstring option"
  form_data :: "(jsstring \<times> form_value) list"

text \<open>
  The consent page is a fixed HTML template with holes; the model keeps the values that
  fill the holes, as they are written into the page.
\<close>

record approval_page =
  page_server_name :: jsstring
  page_server_description :: jsstring
  page_client_name :: jsstring
  page_csrf_token :: jsstring
  page_state :: jsstring

datatype body = NoBody | Text jsstring | ApprovalDialog approval_page

text \<open>
  The headers of a response are the ones this code sets, in the order of the object they
  are read from; a header the runtime adds by itself (a default content type) is not
  listed. Header names are case-insensitive and kept in lower case.
\<close>

record response =
  status :: nat
  body :: body
  headers :: "(jsstring \<times> jsstring) list"

datatype exn =
    OAuthError nat jsstring
  | SyntaxError
  | URIError
  | InvalidCharacterError

definition toResponse :: "nat \<Rightarrow> jsstring \<Rightarrow> response" where
  \<comment> \<open>\<open>OAuthError.toResponse\<close>\<close>
  "toResponse statusCode message =
     \<lparr>status = statusCode, body = Text message, headers = []\<rparr>"

definition c_text :: "jsstring \<Rightarrow> nat \<Rightarrow> response" where
  \<comment> \<open>the router's \<open>c.text(text, status)\<close>\<close>
  "c_text t st = \<lparr>status = st, body = Text t, headers = []\<rparr>"

definition set_cookies :: "response \<Rightarrow> jsstring list" where
  "set_cookies r = map snd (filter (\<lambda>h. fst h = js ''set-cookie'') (headers r))"

definition location :: "response \<Rightarrow> jsstring option" where
  "location r = map_of (headers r) (js ''location'')"

section \<open>Cookies\<close>

definition cookie_step :: "(jsstring \<rightharpoonup> jsstring) \<Rightarrow> jsstring \<Rightarrow> (jsstring \<rightharpoonup> jsstring)" where
  \<comment> \<open>the body of the loop of \<open>parseCookies\<close>\<close>
  "cookie_step cookies pair =
     (case js_split (cu (CHR ''='')) (js_trim pair) of
        [] \<Rightarrow> cookies
      | key # vals \<Rightarrow>
          (if key \<noteq> [] then cookies(js_trim key \<mapsto> js_trim (js_join (js ''='') vals))
           else cookies))"

definition parseCookies :: "jsstring \<Rightarrow> (jsstring \<rightharpoonup> jsstring)" where
  "parseCookies cookieHeader = foldl cookie_step Map.empty (js_split (cu (CHR '';'')) cookieHeader)"

definition request_cookies :: "request \<Rightarrow> (jsstring \<rightharpoonup> jsstring)" where
  \<comment> \<open>\<open>parseCookies(request.headers.get("Cookie") || "")\<close>\<close>
  "request_cookies req =
     parseCookies (case cookie_header req of None \<Rightarrow> [] | Some h \<Rightarrow> h)"

definition falsy :: "jsstring option \<Rightarrow> bool" where
  \<comment> \<open>\<open>!v\<close> for a value that is a string or undefined/null\<close>
  "falsy v = (v = None \<or> v = Some [])"

section \<open>CSRF protection\<close>

definition generateCSRFProtection :: "jsstring \<Rightarrow> jsstring \<times> jsstring" where
  \<comment> \<open>the argument is the value \<open>crypto.randomUUID()\<close> returns; the result is (token, setCookie)\<close>
  "generateCSRFProtection uuid =
     (uuid, js ''__Host-csrf='' @ uuid @ js ''; HttpOnly; Secure; SameSite=Strict; Path=/'')"

definition validateCSRFToken :: "request \<Rightarrow> exn + unit" where
  "validateCSRFToken req =
     (case map_of (form_data req) (js ''csrf_token'') of
        None \<Rightarrow> Inl (OAuthError 400 (js ''Missing CSRF token''))
      | Some FormFile \<Rightarrow> Inl (OAuthError 400 (js ''Missing CSRF token''))
      | Some (FormString csrfToken) \<Rightarrow>
          if csrfToken = [] then Inl (OAuthError 400 (js ''Missing CSRF token''))
          else
            (let cookieToken = request_cookies req (js ''__Host-csrf'')
             in if falsy cookieToken \<or> cookieToken \<noteq> Some csrfToken
                then Inl (OAuthError 403 (js ''CSRF token mismatch''))
                else Inr ()))"

section \<open>The platform\<close>

text \<open>
  \<open>AuthRequest\<close> is the OAuth provider library's type of a parsed authorization request.
\<close>

record AuthRequest =
  responseType :: jsstring
  clientId :: jsstring
  redirectUri :: jsstring
  scope :: "jsstring list"
  state :: jsstring
  codeChallenge :: "jsstring option"
  codeChallengeMethod :: "jsstring option"

text \<open>
  The built-ins of the runtime that the code calls and that are not written out here are
  parameters of the model: the SHA-256 digest and the HMAC of \<open>crypto.subtle\<close> (of the
  UTF-8 encoding of their arguments), and \<open>JSON.stringify\<close> and \<open>JSON.parse\<close> at the
  types the source declares for their arguments and results (\<open>None\<close> is a thrown
  \<open>SyntaxError\<close>), and the text the engine gives as the \<open>message\<close> of an error.
\<close>

record platform =
  sha256_digest :: "jsstring \<Rightarrow> 8 word list"
  hmac_sha256 :: "jsstring \<Rightarrow> jsstring \<Rightarrow> 8 word list"
  stringify_request :: "AuthRequest \<Rightarrow> jsstring"
  parse_request :: "jsstring \<Rightarrow> AuthRequest option"
  stringify_clients :: "jsstring list \<Rightarrow> jsstring"
  parse_clients :: "jsstring \<Rightarrow> jsstring list option"
  stringify_state :: "AuthRequest \<Rightarrow> jsstring"
  parse_state :: "jsstring \<Rightarrow> AuthRequest option option"
  error_message :: "exn \<Rightarrow> jsstring"

definition sha256 :: "platform \<Rightarrow> jsstring \<Rightarrow> jsstring" where
  "sha256 P data = hex_of_bytes (sha256_digest P data)"

definition signData :: "platform \<Rightarrow> jsstring \<Rightarrow> jsstring \<Rightarrow> jsstring" where
  "signData P data secret = hex_of_bytes (hmac_sha256 P secret data)"

definition verifySignature :: "platform \<Rightarrow> jsstring \<Rightarrow> jsstring \<Rightarrow> jsstring \<Rightarrow> bool" where
  "verifySignature P data signature secret = (signData P data secret = signature)"

subsection \<open>Percent-encoding\<close>

text \<open>
  \<open>encodeURIComponent\<close>, \<open>decodeURIComponent\<close> and the serializer of
  \<open>URLSearchParams\<close> go between code units and the percent-encoded octets of UTF-8. A
  token is a code unit that stands for itself or an octet that is written \<open>%XX\<close>.
\<close>

datatype token = Lit code_unit | Octet nat

definition HEXDIGIT :: "nat \<Rightarrow> code_unit" where
  "HEXDIGIT n = js ''0123456789ABCDEF'' ! (n mod 16)"

definition pct :: "nat \<Rightarrow> jsstring" where
  "pct b = [cu (CHR ''%''), HEXDIGIT (b div 16), HEXDIGIT (b mod 16)]"

fun render :: "token \<Rightarrow> jsstring" where
  "render (Lit c) = [c]"
| "render (Octet b) = pct b"

definition utf8 :: "nat \<Rightarrow> nat list" where
  \<comment> \<open>the UTF-8 octets of a code point\<close>
  "utf8 cp =
     (if cp < 0x80 then [cp]
      else if cp < 0x800 then [0xC0 + cp div 64, 0x80 + cp mod 64]
      else if cp < 0x10000
      then [0xE0 + cp div 4096, 0x80 + (cp div 64) mod 64, 0x80 + cp mod 64]
      else [0xF0 + cp div 262144, 0x80 + (cp div 4096) mod 64, 0x80 + (cp div 64) mod 64,
            0x80 + cp mod 64])"

definition is_high_surrogate :: "code_unit \<Rightarrow> bool" where
  "is_high_surrogate c = (0xD800 \<le> c \<and> c \<le> 0xDBFF)"

definition is_low_surrogate :: "code_unit \<Rightarrow> bool" where
  "is_low_surrogate c = (0xDC00 \<le> c \<and> c \<le> 0xDFFF)"

definition pair_code_point :: "code_unit \<Rightarrow> code_unit \<Rightarrow> nat" where
  \<comment> \<open>the code point of a surrogate pair\<close>
  "pair_code_point hi lo = 0x10000 + (unat hi - 0xD800) * 1024 + (unat lo - 0xDC00)"

definition is_alnum :: "code_unit \<Rightarrow> bool" where
  "is_alnum c =
     ((0x30 \<le> c \<and> c \<le> 0x39) \<or> (0x41 \<le> c \<and> c \<le> 0x5A) \<or> (0x61 \<le> c \<and> c \<le> 0x7A))"

definition uri_unreserved :: "code_unit \<Rightarrow> bool" where
  \<comment> \<open>the characters \<open>encodeURIComponent\<close> leaves as they are\<close>
  "uri_unreserved c =
     (is_alnum c \<or> c \<in> set (js ''-_.!~*'') \<or> c = cu (CHR 0x27) \<or> c \<in> set (js ''()''))"

fun uri_tokens :: "jsstring \<Rightarrow> token list option" where
  \<comment> \<open>\<open>None\<close> is the \<open>URIError\<close> thrown for a surrogate that is not part of a pair\<close>
  "uri_tokens [] = Some []"
| "uri_tokens (c # cs) =
     (if uri_unreserved c then map_option ((#) (Lit c)) (uri_tokens cs)
      else if is_low_surrogate c then None
      else if is_high_surrogate c then
        (case cs of
           [] \<Rightarrow> None
         | d # ds \<Rightarrow>
             if is_low_surrogate d
             then map_option ((@) (map Octet (utf8 (pair_code_point c d)))) (uri_tokens ds)
             else None)
      else map_option ((@) (map Octet (utf8 (unat c)))) (uri_tokens cs))"

definition encodeURIComponent :: "jsstring \<Rightarrow> jsstring option" where
  "encodeURIComponent s = map_option (\<lambda>ts. concat (map render ts)) (uri_tokens s)"

definition hexval :: "code_unit \<Rightarrow> nat option" where
  "hexval c =
     (if 0x30 \<le> c \<and> c \<le> 0x39 then Some (unat c - 0x30)
      else if 0x41 \<le> c \<and> c \<le> 0x46 then Some (unat c - 0x37)
      else if 0x61 \<le> c \<and> c \<le> 0x66 then Some (unat c - 0x57)
      else None)"

definition hex_byte :: "code_unit \<Rightarrow> code_unit \<Rightarrow> nat option" where
  "hex_byte h l =
     (case hexval h of
        None \<Rightarrow> None
      | Some a \<Rightarrow> (case hexval l of None \<Rightarrow> None | Some b \<Rightarrow> Some (16 * a + b)))"

fun pct_tokens :: "jsstring \<Rightarrow> token list option" where
  \<comment> \<open>the escapes \<open>%XX\<close> of a string read as octets; \<open>None\<close> when a \<open>%\<close> is not
      followed by two hexadecimal digits\<close>
  "pct_tokens [] = Some []"
| "pct_tokens (c # cs) =
     (if c \<noteq> cu (CHR ''%'') then map_option ((#) (Lit c)) (pct_tokens cs)
      else
        (case cs of
           h # l # rest \<Rightarrow>
             (case hex_byte h l of
                None \<Rightarrow> None
              | Some b \<Rightarrow> map_option ((#) (Octet b)) (pct_tokens rest))
         | _ \<Rightarrow> None))"

definition continuation :: "nat \<Rightarrow> bool" where
  "continuation b = (0x80 \<le> b \<and> b \<le> 0xBF)"

fun utf8_units :: "token list \<Rightarrow> jsstring option" where
  \<comment> \<open>the octets read as UTF-8; \<open>None\<close> when they are not the UTF-8 encoding of code
      points (a missing or wrong continuation octet, an overlong form, a surrogate, a
      code point above 0x10FFFF); a code point above 0xFFFF gives a surrogate pair\<close>
  "utf8_units [] = Some []"
| "utf8_units (Lit c # ts) = map_option ((#) c) (utf8_units ts)"
| "utf8_units (Octet b # ts) =
     (if b < 0x80 then map_option ((#) (of_nat b)) (utf8_units ts)
      else if 0xC2 \<le> b \<and> b \<le> 0xDF then
        (case ts of
           Octet b2 # ts2 \<Rightarrow>
             if continuation b2
             then map_option ((#) (of_nat ((b - 0xC0) * 64 + (b2 - 0x80)))) (utf8_units ts2)
             else None
         | _ \<Rightarrow> None)
      else if 0xE0 \<le> b \<and> b \<le> 0xEF then
        (case ts of
           Octet b2 # Octet b3 # ts3 \<Rightarrow>
             (let cp = (b - 0xE0) * 4096 + (b2 - 0x80) * 64 + (b3 - 0x80)
              in if continuation b2 \<and> continuation b3 \<and> 0x800 \<le> cp
                    \<and> \<not> (0xD800 \<le> cp \<and> cp \<le> 0xDFFF)
                 then map_option ((#) (of_nat cp)) (utf8_units ts3)
                 else None)
         | _ \<Rightarrow> None)
      else if 0xF0 \<le> b \<and> b \<le> 0xF4 then
        (case ts of
           Octet b2 # Octet b3 # Octet b4 # ts4 \<Rightarrow>
             (let cp = (b - 0xF0) * 262144 + (b2 - 0x80) * 4096 + (b3 - 0x80) * 64
                         + (b4 - 0x80)
              in if continuation b2 \<and> continuation b3 \<and> continuation b4
                    \<and> 0x10000 \<le> cp \<and> cp \<le> 0x10FFFF
                 then map_option
                        (\<lambda>r. of_nat (0xD800 + (cp - 0x10000) div 1024)
                               # of_nat (0xDC00 + (cp - 0x10000) mod 1024) # r)
                        (utf8_units ts4)
                 else None)
         | _ \<Rightarrow> None)
      else None)"

definition decodeURIComponent :: "jsstring \<Rightarrow> jsstring option" where
  \<comment> \<open>\<open>None\<close> is the thrown \<open>URIError\<close>\<close>
  "decodeURIComponent s = (case pct_tokens s of None \<Rightarrow> None | Some ts \<Rightarrow> utf8_units ts)"

definition replacement :: "token list" where
  \<comment> \<open>the octets of U+FFFD, which stands for a surrogate that is not part of a pair\<close>
  "replacement = [Octet 0xEF, Octet 0xBF, Octet 0xBD]"

fun form_tokens :: "jsstring \<Rightarrow> token list" where
  "form_tokens [] = []"
| "form_tokens (c # cs) =
     (if is_alnum c \<or> c \<in> set (js ''*-._'') then Lit c # form_tokens cs
      else if c = cu (CHR '' '') then Lit (cu (CHR ''+'')) # form_tokens cs
      else if is_high_surrogate c then
        (case cs of
           [] \<Rightarrow> replacement
         | d # ds \<Rightarrow>
             if is_low_surrogate d
             then map Octet (utf8 (pair_code_point c d)) @ form_tokens ds
             else replacement @ form_tokens cs)
      else if is_low_surrogate c then replacement @ form_tokens cs
      else map Octet (utf8 (unat c)) @ form_tokens cs)"

definition form_urlencode :: "jsstring \<Rightarrow> jsstring" where
  \<comment> \<open>the serializer of \<open>URLSearchParams\<close> for one name or value\<close>
  "form_urlencode s = concat (map render (form_tokens s))"

subsection \<open>Base64\<close>

definition b64_alphabet :: jsstring where
  "b64_alphabet = js ''ABCDEFGHIJKLMNOPQRSTUVWXYZabcdefghijklmnopqrstuvwxyz0123456789+/''"

definition b64 :: "nat \<Rightarrow> code_unit" where
  "b64 n = b64_alphabet ! (n mod 64)"

fun b64_encode :: "nat list \<Rightarrow> jsstring" where
  "b64_encode [] = []"
| "b64_encode [a] = [b64 (a div 4), b64 ((a mod 4) * 16), cu (CHR ''=''), cu (CHR ''='')]"
| "b64_encode [a, b] =
     [b64 (a div 4), b64 ((a mod 4) * 16 + b div 16), b64 ((b mod 16) * 4), cu (CHR ''='')]"
| "b64_encode (a # b # c # rest) =
     [b64 (a div 4), b64 ((a mod 4) * 16 + b div 16), b64 ((b mod 16) * 4 + c div 64),
      b64 (c mod 64)] @ b64_encode rest"

definition btoa :: "jsstring \<Rightarrow> jsstring option" where
  \<comment> \<open>\<open>None\<close> is the \<open>InvalidCharacterError\<close> thrown for a code unit above 0xFF\<close>
  "btoa s = (if list_ex (\<lambda>c. 0xFF < c) s then None else Some (b64_encode (map unat s)))"

definition b64_value :: "code_unit \<Rightarrow> nat option" where
  \<comment> \<open>the position of a character in the base64 alphabet\<close>
  "b64_value c =
     (if 0x41 \<le> c \<and> c \<le> 0x5A then Some (unat c - 0x41)
      else if 0x61 \<le> c \<and> c \<le> 0x7A then Some (unat c - 0x61 + 26)
      else if 0x30 \<le> c \<and> c \<le> 0x39 then Some (unat c - 0x30 + 52)
      else if c = 0x2B then Some 62
      else if c = 0x2F then Some 63
      else None)"

fun b64_octets :: "nat list \<Rightarrow> nat list" where
  \<comment> \<open>the octets of a list of 6-bit values; the bits left over at the end are dropped\<close>
  "b64_octets (a # b # c # d # rest) =
     [a * 4 + b div 16, (b mod 16) * 16 + c div 4, (c mod 4) * 64 + d] @ b64_octets rest"
| "b64_octets [a, b, c] = [a * 4 + b div 16, (b mod 16) * 16 + c div 4]"
| "b64_octets [a, b] = [a * 4 + b div 16]"
| "b64_octets _ = []"

definition is_ascii_whitespace :: "code_unit \<Rightarrow> bool" where
  "is_ascii_whitespace c = (c = 0x09 \<or> c = 0x0A \<or> c = 0x0C \<or> c = 0x0D \<or> c = 0x20)"

definition strip_padding :: "jsstring \<Rightarrow> jsstring" where
  \<comment> \<open>one or two \<open>=\<close> at the end are removed from data whose length is a multiple of 4\<close>
  "strip_padding d =
     (if length d mod 4 \<noteq> 0 then d
      else if 2 \<le> length d \<and> drop (length d - 2) d = js ''=='' then take (length d - 2) d
      else if 1 \<le> length d \<and> drop (length d - 1) d = js ''='' then take (length d - 1) d
      else d)"

definition atob :: "jsstring \<Rightarrow> jsstring option" where
  \<comment> \<open>the forgiving base64 decoding; \<open>None\<close> is the thrown \<open>InvalidCharacterError\<close>\<close>
  "atob s =
     (let d = strip_padding (filter (\<lambda>c. \<not> is_ascii_whitespace c) s)
      in if length d mod 4 = 1 then None
         else (case those (map b64_value d) of
                 None \<Rightarrow> None
               | Some sextets \<Rightarrow> Some (map of_nat (b64_octets sextets))))"

section \<open>The key-value store\<close>

text \<open>
  The store maps a key to a value and the instant (in seconds) at which it expires. Every
  call to the store and to an outside service is appended to a trace.
\<close>

type_synonym kv_store = "jsstring \<rightharpoonup> jsstring \<times> nat"

record completeAuthorization_options =
  ca_request :: AuthRequest
  ca_userId :: jsstring
  ca_label :: jsstring
  ca_scope :: "jsstring list"
  ca_lineUserId :: jsstring
  ca_supabaseUserId :: jsstring
  ca_displayName :: jsstring

datatype event =
    KvPut jsstring jsstring nat
  | KvGet jsstring
  | KvDelete jsstring
  | LineTokenRequest jsstring
  | LineProfileRequest jsstring
  | SupabaseSignIn jsstring jsstring
  | CompleteAuthorization completeAuthorization_options

record world =
  kv :: kv_store
  trace :: "event list"

definition kv_put :: "nat \<Rightarrow> jsstring \<Rightarrow> jsstring \<Rightarrow> nat \<Rightarrow> world \<Rightarrow> world" where
  \<comment> \<open>\<open>kv.put(key, value, { expirationTtl: ttl })\<close> at the instant \<open>now\<close>\<close>
  "kv_put now key v ttl w =
     w\<lparr>kv := (kv w)(key \<mapsto> (v, now + ttl)), trace := trace w @ [KvPut key v ttl]\<rparr>"

definition kv_get :: "nat \<Rightarrow> jsstring \<Rightarrow> world \<Rightarrow> jsstring option \<times> world" where
  "kv_get now key w =
     ((case kv w key of
         None \<Rightarrow> None
       | Some (v, expiry) \<Rightarrow> if now < expiry then Some v else None),
      w\<lparr>trace := trace w @ [KvGet key]\<rparr>)"

definition kv_delete :: "jsstring \<Rightarrow> world \<Rightarrow> world" where
  "kv_delete key w = w\<lparr>kv := (kv w)(key := None), trace := trace w @ [KvDelete key]\<rparr>"

section \<open>OAuth state management\<close>

definition createOAuthState ::
  "platform \<Rightarrow> jsstring \<Rightarrow> nat \<Rightarrow> AuthRequest \<Rightarrow> nat \<Rightarrow> world \<Rightarrow> jsstring \<times> world" where
  \<comment> \<open>\<open>uuid\<close> is the value \<open>crypto.randomUUID()\<close> returns\<close>
  "createOAuthState P uuid now oauthReqInfo ttl w =
     (uuid, kv_put now (js ''oauth_state:'' @ uuid) (stringify_request P oauthReqInfo) ttl w)"

definition bindStateToSession :: "platform \<Rightarrow> jsstring \<Rightarrow> jsstring" where
  "bindStateToSession P stateToken =
     js ''__Host-session='' @ sha256 P stateToken
       @ js ''; HttpOnly; Secure; SameSite=Lax; Path=/; Max-Age=600''"

definition clearCookie :: jsstring where
  "clearCookie = js ''__Host-session=; HttpOnly; Secure; SameSite=Lax; Path=/; Max-Age=0''"

definition validateOAuthState ::
  "platform \<Rightarrow> nat \<Rightarrow> request \<Rightarrow> world \<Rightarrow> (exn + AuthRequest \<times> jsstring) \<times> world" where
  "validateOAuthState P now req w =
     (let stateParam = map_of (url_query req) (js ''state'')
      in case stateParam of
           None \<Rightarrow> (Inl (OAuthError 400 (js ''Missing state parameter'')), w)
         | Some stateToken \<Rightarrow>
             if stateToken = [] then (Inl (OAuthError 400 (js ''Missing state parameter'')), w)
             else
               (let sessionHash = request_cookies req (js ''__Host-session'')
                in if falsy sessionHash
                   then (Inl (OAuthError 400 (js ''Missing session cookie'')), w)
                   else if sessionHash \<noteq> Some (sha256 P stateToken)
                   then (Inl (OAuthError 403 (js ''Session binding mismatch'')), w)
                   else
                     (case kv_get now (js ''oauth_state:'' @ stateToken) w of
                        (None, w1) \<Rightarrow> (Inl (OAuthError 400 (js ''Invalid or expired state'')), w1)
                      | (Some stored, w1) \<Rightarrow>
                          if stored = []
                          then (Inl (OAuthError 400 (js ''Invalid or expired state'')), w1)
                          else
                            (let w2 = kv_delete (js ''oauth_state:'' @ stateToken) w1
                             in case parse_request P stored of
                                  None \<Rightarrow> (Inl SyntaxError, w2)
                                | Some oauthReqInfo \<Rightarrow>
                                    (Inr (oauthReqInfo, clearCookie), w2)))))"

section \<open>Client approval\<close>

definition getApprovedClientsFromCookie ::
  "platform \<Rightarrow> request \<Rightarrow> jsstring \<Rightarrow> exn + jsstring list" where
  "getApprovedClientsFromCookie P req secret =
     (case request_cookies req (js ''__Host-approved'') of
        None \<Rightarrow> Inr []
      | Some raw \<Rightarrow>
          if raw = [] then Inr []
          else
            (case decodeURIComponent raw of
               None \<Rightarrow> Inl URIError
             | Some decoded \<Rightarrow>
                 (case lastIndexOf (cu (CHR ''|'')) decoded of
                    None \<Rightarrow> Inr []
                  | Some pipeIdx \<Rightarrow>
                      (let data = take pipeIdx decoded;
                           signature = drop (pipeIdx + 1) decoded
                       in if \<not> verifySignature P data signature secret then Inr []
                          else (case parse_clients P data of
                                  None \<Rightarrow> Inr []
                                | Some approved \<Rightarrow> Inr approved)))))"

definition isClientApproved :: "platform \<Rightarrow> request \<Rightarrow> jsstring \<Rightarrow> jsstring \<Rightarrow> exn + bool" where
  "isClientApproved P req client secret =
     (case getApprovedClientsFromCookie P req secret of
        Inl e \<Rightarrow> Inl e
      | Inr approved \<Rightarrow> Inr (client \<in> set approved))"

definition addApprovedClient ::
  "platform \<Rightarrow> request \<Rightarrow> jsstring \<Rightarrow> jsstring \<Rightarrow> exn + jsstring" where
  "addApprovedClient P req client secret =
     (case getApprovedClientsFromCookie P req secret of
        Inl e \<Rightarrow> Inl e
      | Inr approved0 \<Rightarrow>
          (let approved = (if client \<notin> set approved0 then approved0 @ [client] else approved0);
               data = stringify_clients P approved;
               signature = signData P data secret;
               v = data @ js ''|'' @ signature
           in case encodeURIComponent v of
                None \<Rightarrow> Inl URIError
              | Some encoded \<Rightarrow>
                  Inr (js ''__Host-approved='' @ encoded
                         @ js ''; HttpOnly; Secure; SameSite=Lax; Path=/; Max-Age=31536000'')))"

section \<open>Outside services and configuration\<close>

record env =
  SUPABASE_URL :: jsstring
  SUPABASE_ANON_KEY :: jsstring
  LINE_CHANNEL_ID :: jsstring
  LINE_CHANNEL_SECRET :: jsstring
  COMMON_PASSWORD_PREFIX :: jsstring
  COOKIE_ENCRYPTION_KEY :: jsstring

record client_info =
  clientName :: "jsstring option"
  client_clientId :: "jsstring option"

record token_request =
  grant_type :: jsstring
  tq_code :: jsstring
  redirect_uri :: jsstring
  client_id :: jsstring
  client_secret :: jsstring

text \<open>
  The reply of an HTTP call: \<open>ok\<close>, the text of the body, and what \<open>resp.json()\<close>
  gives at the type the source declares (\<open>None\<close> when it throws).
\<close>

record token_reply =
  tr_ok :: bool
  tr_text :: jsstring
  tr_json :: "jsstring option option"

record profile =
  userId :: jsstring
  displayName :: jsstring
  pictureUrl :: "jsstring option"

record profile_reply =
  pr_ok :: bool
  pr_text :: jsstring
  pr_json :: "profile option"

text \<open>
  The collaborators of the handlers: the OAuth provider library
  (\<open>parseAuthRequest\<close>, \<open>lookupClient\<close>, \<open>completeAuthorization\<close>), the two endpoints of
  the identity provider behind \<open>fetch\<close>, and the backend's \<open>signInWithPassword\<close>
  (\<open>Inl\<close> is its error, \<open>Inr\<close> the id of the user).
\<close>

record services =
  parseAuthRequest :: "request \<Rightarrow> AuthRequest"
  lookupClient :: "jsstring \<Rightarrow> client_info option"
  line_token_fetch :: "token_request \<Rightarrow> token_reply"
  line_profile_fetch :: "jsstring \<Rightarrow> profile_reply"
  signInWithPassword :: "jsstring \<Rightarrow> jsstring \<Rightarrow> jsstring \<Rightarrow> jsstring \<Rightarrow> jsstring + jsstring"
  completeAuthorization :: "completeAuthorization_options \<Rightarrow> jsstring"

definition log_event :: "event \<Rightarrow> world \<Rightarrow> world" where
  "log_event e w = w\<lparr>trace := trace w @ [e]\<rparr>"

section \<open>The identity provider and the backend\<close>

definition getLineAuthorizeUrl :: "jsstring \<Rightarrow> jsstring \<Rightarrow> jsstring \<Rightarrow> jsstring" where
  \<comment> \<open>the arguments are \<open>channelId\<close>, \<open>redirectUri\<close> and \<open>state\<close>\<close>
  "getLineAuthorizeUrl channelId redirect st =
     js ''https://access.line.me/oauth2/v2.1/authorize''
       @ js ''?response_type=code''
       @ js ''&client_id='' @ form_urlencode channelId
       @ js ''&redirect_uri='' @ form_urlencode redirect
       @ js ''&state='' @ form_urlencode st
       @ js ''&scope=profile+openid''"

definition fetchLineToken ::
  "services \<Rightarrow> jsstring \<Rightarrow> jsstring \<Rightarrow> jsstring \<Rightarrow> jsstring \<Rightarrow> world
     \<Rightarrow> (exn + response + jsstring) \<times> world" where
  \<comment> \<open>\<open>Inr (Inr token)\<close> is \<open>[token, null]\<close>, \<open>Inr (Inl r)\<close> is \<open>[null, r]\<close>\<close>
  "fetchLineToken svc code channelId channelSecret redirect w =
     (let resp = line_token_fetch svc
                   \<lparr>grant_type = js ''authorization_code'', tq_code = code,
                    redirect_uri = redirect, client_id = channelId,
                    client_secret = channelSecret\<rparr>;
          w1 = log_event (LineTokenRequest code) w
      in if \<not> tr_ok resp
         then (Inr (Inl \<lparr>status = 500,
                          body = Text (js ''Failed to exchange LINE authorization code''),
                          headers = []\<rparr>), w1)
         else
           (case tr_json resp of
              None \<Rightarrow> (Inl SyntaxError, w1)
            | Some access_token \<Rightarrow>
                if falsy access_token
                then (Inr (Inl \<lparr>status = 500, body = Text (js ''Missing access token from LINE''),
                                 headers = []\<rparr>), w1)
                else (Inr (Inr (case access_token of Some t \<Rightarrow> t | None \<Rightarrow> [])), w1)))"

definition fetchLineProfile ::
  "services \<Rightarrow> jsstring \<Rightarrow> world \<Rightarrow> (exn + profile option) \<times> world" where
  "fetchLineProfile svc accessToken w =
     (let resp = line_profile_fetch svc accessToken;
          w1 = log_event (LineProfileRequest accessToken) w
      in if \<not> pr_ok resp then (Inr None, w1)
         else (case pr_json resp of
                 None \<Rightarrow> (Inl SyntaxError, w1)
               | Some p \<Rightarrow> (Inr (Some p), w1)))"

definition signInWithLineId ::
  "services \<Rightarrow> jsstring \<Rightarrow> jsstring \<Rightarrow> jsstring \<Rightarrow> jsstring \<Rightarrow> world \<Rightarrow> jsstring option \<times> world" where
  \<comment> \<open>the result is \<open>supabaseUserId\<close>, or \<open>None\<close> for \<open>null\<close>\<close>
  "signInWithLineId svc supabaseUrl supabaseAnonKey lineUser passwordPrefix w =
     (let email = lineUser @ js ''@line.com'';
          password = passwordPrefix @ take 6 lineUser;
          w1 = log_event (SupabaseSignIn email password) w
      in case signInWithPassword svc supabaseUrl supabaseAnonKey email password of
           Inl err \<Rightarrow> (None, w1)
         | Inr uid \<Rightarrow> (Some uid, w1))"

section \<open>The approval dialog\<close>

definition replace_char :: "code_unit \<Rightarrow> jsstring \<Rightarrow> jsstring \<Rightarrow> jsstring" where
  \<comment> \<open>\<open>s.replace(/c/g, r)\<close>\<close>
  "replace_char c r s = concat (map (\<lambda>x. if x = c then r else [x]) s)"

definition sanitizeText :: "jsstring \<Rightarrow> jsstring" where
  "sanitizeText t =
     replace_char (cu (CHR 0x27)) (js ''&#x27;'')
       (replace_char (cu (CHR 0x22)) (js ''&quot;'')
          (replace_char (cu (CHR ''>'')) (js ''&gt;'')
             (replace_char (cu (CHR ''<'')) (js ''&lt;'')
                (replace_char (cu (CHR ''&'')) (js ''&amp;'') t))))"

definition or_default :: "jsstring option \<Rightarrow> jsstring \<Rightarrow> jsstring" where
  \<comment> \<open>\<open>v || d\<close>\<close>
  "or_default v d = (case v of None \<Rightarrow> d | Some s \<Rightarrow> if s = [] then d else s)"

definition renderApprovalDialog ::
  "platform \<Rightarrow> client_info option \<Rightarrow> jsstring \<Rightarrow> jsstring \<Rightarrow> jsstring \<Rightarrow> jsstring
     \<Rightarrow> AuthRequest \<Rightarrow> exn + response" where
  \<comment> \<open>the arguments after the client are \<open>csrfToken\<close>, \<open>server.name\<close>,
      \<open>server.description\<close>, \<open>setCookie\<close> and \<open>state.oauthReqInfo\<close>; the handler
      passes no logo\<close>
  "renderApprovalDialog P client csrfToken serverName serverDescription setCookie oauthReqInfo =
     (let name =
            or_default (case client of None \<Rightarrow> None | Some c \<Rightarrow> clientName c)
              (or_default (case client of None \<Rightarrow> None | Some c \<Rightarrow> client_clientId c)
                 (js ''Unknown Client''))
      in case btoa (stringify_state P oauthReqInfo) of
           None \<Rightarrow> Inl InvalidCharacterError
         | Some encodedState \<Rightarrow>
             Inr \<lparr>status = 200,
                  body = ApprovalDialog
                    \<lparr>page_server_name = sanitizeText serverName,
                     page_server_description = sanitizeText serverDescription,
                     page_client_name = sanitizeText name,
                     page_csrf_token = csrfToken,
                     page_state = encodedState\<rparr>,
                  headers = [(js ''content-type'', js ''text/html; charset=utf-8''),
                             (js ''set-cookie'', setCookie)]\<rparr>)"

section \<open>The handlers\<close>

definition getCallbackUrl :: "request \<Rightarrow> jsstring" where
  \<comment> \<open>\<open>new URL("/callback", request.url)\<close>, its protocol set to https off localhost;
      the protocol setter drops a port that is the default of the new scheme\<close>
  "getCallbackUrl req =
     (let secure = (url_hostname req \<noteq> js ''localhost'' \<and> url_hostname req \<noteq> js ''127.0.0.1'');
          protocol = (if secure then js ''https:'' else url_protocol req);
          port = (if secure \<and> url_port req = js ''443'' then [] else url_port req)
      in protocol @ js ''//'' @ url_hostname req
           @ (if port = [] then [] else js '':'' @ port) @ js ''/callback'')"

definition redirectToLine ::
  "request \<Rightarrow> jsstring \<Rightarrow> jsstring \<Rightarrow> (jsstring \<times> jsstring) list \<Rightarrow> response" where
  "redirectToLine req stateToken channelId hdrs =
     \<lparr>status = 302, body = NoBody,
      headers = AList.update (js ''location'')
                  (getLineAuthorizeUrl channelId (getCallbackUrl req) stateToken) hdrs\<rparr>"

definition Headers_append ::
  "(jsstring \<times> jsstring) list \<Rightarrow> jsstring \<Rightarrow> jsstring \<Rightarrow> (jsstring \<times> jsstring) list" where
  "Headers_append hs name v = hs @ [(name, v)]"

definition Object_fromEntries :: "(jsstring \<times> jsstring) list \<Rightarrow> (jsstring \<times> jsstring) list" where
  \<comment> \<open>\<open>Object.fromEntries(headers)\<close>: iterating a \<open>Headers\<close> object gives one entry
      for each set-cookie value, under the same lower-case key, and a later entry of a key
      replaces the value of an earlier one\<close>
  "Object_fromEntries es = foldl (\<lambda>obj (k, v). AList.update k v obj) [] es"

definition authorize_get ::
  "platform \<Rightarrow> env \<Rightarrow> services \<Rightarrow> jsstring \<Rightarrow> nat \<Rightarrow> request \<Rightarrow> world
     \<Rightarrow> (exn + response) \<times> world" where
  \<comment> \<open>\<open>app.get("/authorize")\<close>; \<open>uuid\<close> is the value \<open>crypto.randomUUID()\<close> returns
      during the request, \<open>Inl\<close> an exception that leaves the handler\<close>
  "authorize_get P e svc uuid now req w =
     (let oauthReqInfo = parseAuthRequest svc req
      in if clientId oauthReqInfo = [] then (Inr (c_text (js ''Invalid request'') 400), w)
         else
           (case isClientApproved P req (clientId oauthReqInfo) (COOKIE_ENCRYPTION_KEY e) of
              Inl err \<Rightarrow> (Inl err, w)
            | Inr True \<Rightarrow>
                (case createOAuthState P uuid now oauthReqInfo 600 w of
                   (stateToken, w1) \<Rightarrow>
                     (Inr (redirectToLine req stateToken (LINE_CHANNEL_ID e)
                             [(js ''set-cookie'', bindStateToSession P stateToken)]), w1))
            | Inr False \<Rightarrow>
                (case generateCSRFProtection uuid of
                   (csrfToken, setCookie) \<Rightarrow>
                     (renderApprovalDialog P (lookupClient svc (clientId oauthReqInfo))
                        csrfToken (js ''My MCP Server'') (js ''Your service description here'')
                        setCookie oauthReqInfo, w))))"

definition authorize_post ::
  "platform \<Rightarrow> env \<Rightarrow> jsstring \<Rightarrow> nat \<Rightarrow> request \<Rightarrow> world \<Rightarrow> response \<times> world" where
  \<comment> \<open>\<open>app.post("/authorize")\<close>\<close>
  "authorize_post P e uuid now req w =
     (case validateCSRFToken req of
        Inl (OAuthError st m) \<Rightarrow> (toResponse st m, w)
      | Inl err \<Rightarrow> (c_text (js ''Internal server error: '' @ error_message P err) 500, w)
      | Inr u \<Rightarrow>
          (case map_of (form_data req) (js ''state'') of
             None \<Rightarrow> (c_text (js ''Missing state in form data'') 400, w)
           | Some FormFile \<Rightarrow> (c_text (js ''Missing state in form data'') 400, w)
           | Some (FormString encodedState) \<Rightarrow>
               if encodedState = [] then (c_text (js ''Missing state in form data'') 400, w)
               else
                 (case (case atob encodedState of
                          None \<Rightarrow> None
                        | Some t \<Rightarrow> parse_state P t) of
                    None \<Rightarrow> (c_text (js ''Invalid state data'') 400, w)
                  | Some None \<Rightarrow> (c_text (js ''Invalid request'') 400, w)
                  | Some (Some oauthReqInfo) \<Rightarrow>
                      if clientId oauthReqInfo = [] then (c_text (js ''Invalid request'') 400, w)
                      else
                        (case addApprovedClient P req (clientId oauthReqInfo)
                                (COOKIE_ENCRYPTION_KEY e) of
                           Inl (OAuthError st m) \<Rightarrow> (toResponse st m, w)
                         | Inl err \<Rightarrow>
                             (c_text (js ''Internal server error: '' @ error_message P err) 500, w)
                         | Inr approvedClientCookie \<Rightarrow>
                             (case createOAuthState P uuid now oauthReqInfo 600 w of
                                (stateToken, w1) \<Rightarrow>
                                  (let sessionBindingCookie = bindStateToSession P stateToken;
                                       hs = Headers_append
                                              (Headers_append [] (js ''set-cookie'')
                                                 approvedClientCookie)
                                              (js ''set-cookie'') sessionBindingCookie
                                   in (redirectToLine req stateToken (LINE_CHANNEL_ID e)
                                         (Object_fromEntries hs), w1)))))))"

definition callback ::
  "platform \<Rightarrow> env \<Rightarrow> services \<Rightarrow> nat \<Rightarrow> request \<Rightarrow> world \<Rightarrow> (exn + response) \<times> world" where
  \<comment> \<open>\<open>app.get("/callback")\<close>; \<open>Inl\<close> is an exception that leaves the handler\<close>
  "callback P e svc now req w =
     (case validateOAuthState P now req w of
        (Inl (OAuthError st m), w1) \<Rightarrow> (Inr (toResponse st m), w1)
      | (Inl err, w1) \<Rightarrow> (Inr (c_text (js ''Internal server error'') 500), w1)
      | (Inr (oauthReqInfo, clearSessionCookie), w1) \<Rightarrow>
          if clientId oauthReqInfo = []
          then (Inr (c_text (js ''Invalid OAuth request data'') 400), w1)
          else if falsy (map_of (url_query req) (js ''code''))
          then (Inr (c_text (js ''Missing authorization code'') 400), w1)
          else
            (case fetchLineToken svc
                    (case map_of (url_query req) (js ''code'') of Some c \<Rightarrow> c | None \<Rightarrow> [])
                    (LINE_CHANNEL_ID e) (LINE_CHANNEL_SECRET e) (getCallbackUrl req) w1 of
               (Inl err, w2) \<Rightarrow> (Inl err, w2)
             | (Inr (Inl errResponse), w2) \<Rightarrow> (Inr errResponse, w2)
             | (Inr (Inr lineAccessToken), w2) \<Rightarrow>
                 (case fetchLineProfile svc lineAccessToken w2 of
                    (Inl err, w3) \<Rightarrow> (Inl err, w3)
                  | (Inr None, w3) \<Rightarrow> (Inr (c_text (js ''Failed to fetch LINE profile'') 500), w3)
                  | (Inr (Some prof), w3) \<Rightarrow>
                      (case signInWithLineId svc (SUPABASE_URL e) (SUPABASE_ANON_KEY e)
                              (userId prof) (COMMON_PASSWORD_PREFIX e) w3 of
                         (None, w4) \<Rightarrow>
                           (Inr \<lparr>status = 403,
                                 body = Text (js ''Account not found. Please register via the app first.''),
                                 headers = []\<rparr>, w4)
                       | (Some supabaseUser, w4) \<Rightarrow>
                           (let opts = \<lparr>ca_request = oauthReqInfo, ca_userId = userId prof,
                                        ca_label = displayName prof,
                                        ca_scope = scope oauthReqInfo,
                                        ca_lineUserId = userId prof,
                                        ca_supabaseUserId = supabaseUser,
                                        ca_displayName = displayName prof\<rparr>;
                                redirectTo = completeAuthorization svc opts;
                                w5 = log_event (CompleteAuthorization opts) w4
                            in (Inr \<lparr>status = 302, body = NoBody,
                                      headers = (js ''location'', redirectTo)
                                        # (if clearSessionCookie \<noteq> []
                                           then [(js ''set-cookie'', clearSessionCookie)]
                                           else [])\<rparr>, w5))))))"

section \<open>An executable platform\<close>

text \<open>
  To run the handlers on concrete requests, the parameters are given small executable
  stand-ins: a digest that returns the low byte of each code unit of its input, and JSON
  texts without white space for strings that need no escape.
\<close>

definition toy_digest :: "jsstring \<Rightarrow> 8 word list" where
  "toy_digest s = map ucast s"

definition quote :: "jsstring \<Rightarrow> jsstring" where
  "quote s = [cu (CHR 0x22)] @ s @ [cu (CHR 0x22)]"

definition expect :: "jsstring \<Rightarrow> jsstring \<Rightarrow> jsstring option" where
  \<comment> \<open>the rest of the input after a literal\<close>
  "expect lit s = (if take (length lit) s = lit then Some (drop (length lit) s) else None)"

definition read_string :: "jsstring \<Rightarrow> (jsstring \<times> jsstring) option" where
  \<comment> \<open>a quoted string at the head of the input, and the rest\<close>
  "read_string s =
     (case s of
        [] \<Rightarrow> None
      | c # cs \<Rightarrow>
          if c \<noteq> cu (CHR 0x22) then None
          else (let str = takeWhile (\<lambda>x. x \<noteq> cu (CHR 0x22)) cs;
                    rest = dropWhile (\<lambda>x. x \<noteq> cu (CHR 0x22)) cs
                in case rest of [] \<Rightarrow> None | q # rest' \<Rightarrow> Some (str, rest')))"

fun read_items :: "nat \<Rightarrow> jsstring \<Rightarrow> (jsstring list \<times> jsstring) option" where
  \<comment> \<open>the items of an array of strings after the first, up to the closing bracket;
      the first argument bounds the number of items\<close>
  "read_items 0 s = None"
| "read_items (Suc n) s =
     (case s of
        [] \<Rightarrow> None
      | c # cs \<Rightarrow>
          if c = cu (CHR '']'') then Some ([], cs)
          else if c = cu (CHR '','') then
            (case read_string cs of
               None \<Rightarrow> None
             | Some (x, rest) \<Rightarrow>
                 (case read_items n rest of
                    None \<Rightarrow> None
                  | Some (xs, rest') \<Rightarrow> Some (x # xs, rest')))
          else None)"

definition read_array :: "jsstring \<Rightarrow> (jsstring list \<times> jsstring) option" where
  "read_array s =
     (case expect (js ''['') s of
        None \<Rightarrow> None
      | Some s1 \<Rightarrow>
          (case expect (js '']'') s1 of
             Some rest \<Rightarrow> Some ([], rest)
           | None \<Rightarrow>
               (case read_string s1 of
                  None \<Rightarrow> None
                | Some (x, s2) \<Rightarrow>
                    (case read_items (Suc (length s2)) s2 of
                       None \<Rightarrow> None
                     | Some (xs, rest) \<Rightarrow> Some (x # xs, rest)))))"

definition toy_stringify_clients :: "jsstring list \<Rightarrow> jsstring" where
  "toy_stringify_clients xs = js ''['' @ js_join (js '','') (map quote xs) @ js '']''"

definition toy_parse_clients :: "jsstring \<Rightarrow> jsstring list option" where
  "toy_parse_clients s =
     (case read_array s of
        Some (xs, []) \<Rightarrow> Some xs
      | _ \<Rightarrow> None)"

definition toy_stringify_request :: "AuthRequest \<Rightarrow> jsstring" where
  "toy_stringify_request r =
     js ''{'' @ quote (js ''responseType'') @ js '':'' @ quote (responseType r)
       @ js '','' @ quote (js ''clientId'') @ js '':'' @ quote (clientId r)
       @ js '','' @ quote (js ''redirectUri'') @ js '':'' @ quote (redirectUri r)
       @ js '','' @ quote (js ''scope'') @ js '':'' @ toy_stringify_clients (scope r)
       @ js '','' @ quote (js ''state'') @ js '':'' @ quote (state r)
       @ (case codeChallenge r of
            None \<Rightarrow> []
          | Some v \<Rightarrow> js '','' @ quote (js ''codeChallenge'') @ js '':'' @ quote v)
       @ (case codeChallengeMethod r of
            None \<Rightarrow> []
          | Some v \<Rightarrow> js '','' @ quote (js ''codeChallengeMethod'') @ js '':'' @ quote v)
       @ js ''}''"

definition read_field :: "jsstring \<Rightarrow> jsstring \<Rightarrow> (jsstring \<times> jsstring) option" where
  \<comment> \<open>a member with the given name and a string value\<close>
  "read_field name s =
     (case expect (quote name @ js '':'') s of
        None \<Rightarrow> None
      | Some s1 \<Rightarrow> read_string s1)"

definition read_optional :: "jsstring \<Rightarrow> jsstring \<Rightarrow> jsstring option \<times> jsstring" where
  "read_optional name s =
     (case expect (js '','') s of
        None \<Rightarrow> (None, s)
      | Some s1 \<Rightarrow>
          (case read_field name s1 of
             None \<Rightarrow> (None, s)
           | Some (v, rest) \<Rightarrow> (Some v, rest)))"

definition read_request :: "jsstring \<Rightarrow> (AuthRequest \<times> jsstring) option" where
  "read_request s0 =
     Option.bind (expect (js ''{'') s0) (\<lambda>s1.
     Option.bind (read_field (js ''responseType'') s1) (\<lambda>(rt, s2).
     Option.bind (expect (js '','') s2) (\<lambda>s3.
     Option.bind (read_field (js ''clientId'') s3) (\<lambda>(cid, s4).
     Option.bind (expect (js '','') s4) (\<lambda>s5.
     Option.bind (read_field (js ''redirectUri'') s5) (\<lambda>(ru, s6).
     Option.bind (expect (js '','' @ quote (js ''scope'') @ js '':'') s6) (\<lambda>s7.
     Option.bind (read_array s7) (\<lambda>(sc, s8).
     Option.bind (expect (js '','') s8) (\<lambda>s9.
     Option.bind (read_field (js ''state'') s9) (\<lambda>(st, s10).
       (let (cc, s11) = read_optional (js ''codeChallenge'') s10;
            (ccm, s12) = read_optional (js ''codeChallengeMethod'') s11
        in Option.bind (expect (js ''}'') s12) (\<lambda>rest.
             Some (\<lparr>responseType = rt, clientId = cid, redirectUri = ru, scope = sc,
                     state = st, codeChallenge = cc, codeChallengeMethod = ccm\<rparr>,
                   rest)))))))))))))"

definition toy_parse_request :: "jsstring \<Rightarrow> AuthRequest option" where
  "toy_parse_request s =
     (case read_request s of
        Some (r, []) \<Rightarrow> Some r
      | _ \<Rightarrow> None)"

definition toy_stringify_state :: "AuthRequest \<Rightarrow> jsstring" where
  "toy_stringify_state r = js ''{'' @ quote (js ''oauthReqInfo'') @ js '':'' @ toy_stringify_request r @ js ''}''"

definition toy_parse_state :: "jsstring \<Rightarrow> AuthRequest option option" where
  "toy_parse_state s =
     (if s = js ''{}'' then Some None
      else
        (case expect (js ''{'' @ quote (js ''oauthReqInfo'') @ js '':'') s of
           None \<Rightarrow> None
         | Some s1 \<Rightarrow>
             (case read_request s1 of
                None \<Rightarrow> None
              | Some (r, rest) \<Rightarrow> if rest = js ''}'' then Some (Some r) else None)))"

definition toy_error_message :: "exn \<Rightarrow> jsstring" where
  "toy_error_message e =
     (case e of
        OAuthError st m \<Rightarrow> m
      | URIError \<Rightarrow> js ''URI malformed''
      | SyntaxError \<Rightarrow> js ''Unexpected end of JSON input''
      | InvalidCharacterError \<Rightarrow> js ''Invalid character'')"

definition toy_platform :: platform where
  "toy_platform =
     \<lparr>sha256_digest = toy_digest,
      hmac_sha256 = (\<lambda>secret data. toy_digest (secret @ data)),
      stringify_request = toy_stringify_request,
      parse_request = toy_parse_request,
      stringify_clients = toy_stringify_clients,
      parse_clients = toy_parse_clients,
      stringify_state = toy_stringify_state,
      parse_state = toy_parse_state,
      error_message = toy_error_message\<rparr>"

section \<open>Notions the properties are stated with\<close>

definition cookie_pair :: "jsstring \<Rightarrow> jsstring" where
  \<comment> \<open>the name=value pair a user agent sends back for a Set-Cookie directive\<close>
  "cookie_pair setCookie = takeWhile (\<lambda>c. c \<noteq> cu (CHR '';'')) setCookie"

definition is_hex :: "code_unit \<Rightarrow> bool" where
  "is_hex c = (c \<in> set (js ''0123456789abcdef''))"

definition plain_char :: "code_unit \<Rightarrow> bool" where
  \<comment> \<open>a character that passes through the cookie header as it is\<close>
  "plain_char c = (c \<noteq> cu (CHR '';'') \<and> c \<noteq> cu (CHR ''='') \<and> \<not> is_js_space c)"

definition submitted_token :: "request \<Rightarrow> jsstring option" where
  \<comment> \<open>the form field \<open>csrf_token\<close> when it is a string that is not empty\<close>
  "submitted_token req =
     (case map_of (form_data req) (js ''csrf_token'') of
        Some (FormString t) \<Rightarrow> if t = [] then None else Some t
      | _ \<Rightarrow> None)"

fun issued_of :: "event \<Rightarrow> completeAuthorization_options list" where
  "issued_of (CompleteAuthorization opts) = [opts]"
| "issued_of _ = []"

definition issued :: "world \<Rightarrow> completeAuthorization_options list" where
  \<comment> \<open>the calls of the token issuance made so far\<close>
  "issued w = concat (map issued_of (trace w))"

section \<open>Example requests\<close>

definition example_env :: env where
  "example_env =
     \<lparr>SUPABASE_URL = js ''https://db.example'', SUPABASE_ANON_KEY = js ''anon'',
      LINE_CHANNEL_ID = js ''1234567890'', LINE_CHANNEL_SECRET = js ''channel-secret'',
      COMMON_PASSWORD_PREFIX = js ''prefix-'', COOKIE_ENCRYPTION_KEY = js ''cookie-key''\<rparr>"

definition example_info :: AuthRequest where
  "example_info =
     \<lparr>responseType = js ''code'', clientId = js ''abc'', redirectUri = js ''https://client.example/cb'',
      scope = [js ''read''], state = js ''xyz'', codeChallenge = None, codeChallengeMethod = None\<rparr>"

definition example_services :: "bool \<Rightarrow> services" where
  \<comment> \<open>the argument says whether the backend knows the user of the profile\<close>
  "example_services linked =
     \<lparr>parseAuthRequest = (\<lambda>req. example_info),
      lookupClient = (\<lambda>c. Some \<lparr>clientName = Some (js ''Example client''), client_clientId = Some c\<rparr>),
      line_token_fetch = (\<lambda>q. if tq_code q = js ''good-code''
         then \<lparr>tr_ok = True, tr_text = [], tr_json = Some (Some (js ''line-token''))\<rparr>
         else \<lparr>tr_ok = False, tr_text = js ''invalid_grant'', tr_json = None\<rparr>),
      line_profile_fetch = (\<lambda>t.
         \<lparr>pr_ok = (t = js ''line-token''), pr_text = [],
          pr_json = Some \<lparr>userId = js ''U4af4980629'', displayName = js ''Taro'', pictureUrl = None\<rparr>\<rparr>),
      signInWithPassword = (\<lambda>url key email password.
         if linked then Inr (js ''user-1'') else Inl (js ''Invalid login credentials'')),
      completeAuthorization = (\<lambda>opts. redirectUri (ca_request opts) @ js ''?code=issued'')\<rparr>"

definition empty_world :: world where
  "empty_world = \<lparr>kv = Map.empty, trace = []\<rparr>"

definition stored_world :: world where
  \<comment> \<open>the store after the pending authorization was saved under the token tok-1 at instant 0\<close>
  "stored_world = snd (createOAuthState toy_platform (js ''tok-1'') 0 example_info 600 empty_world)"

definition corrupt_world :: world where
  "corrupt_world = \<lparr>kv = [js ''oauth_state:tok-1'' \<mapsto> (js ''{'', 600)], trace = []\<rparr>"

definition callback_request :: "jsstring \<Rightarrow> jsstring option \<Rightarrow> request" where
  \<comment> \<open>\<open>GET /callback?code=good-code&state=st\<close> with the given Cookie header\<close>
  "callback_request st cookie =
     \<lparr>url_protocol = js ''https:'', url_hostname = js ''mcp.example'', url_port = [],
      url_query = [(js ''code'', js ''good-code''), (js ''state'', st)],
      cookie_header = cookie, form_data = []\<rparr>"

definition authorize_request :: "jsstring option \<Rightarrow> (jsstring \<times> form_value) list \<Rightarrow> request" where
  "authorize_request cookie form =
     \<lparr>url_protocol = js ''https:'', url_hostname = js ''mcp.example'', url_port = [],
      url_query = [(js ''client_id'', js ''abc'')], cookie_header = cookie, form_data = form\<rparr>"

definition post_form :: "(jsstring \<times> form_value) list" where
  \<comment> \<open>the state field is the base64 of the JSON text of \<open>{oauthReqInfo: example_info}\<close>\<close>
  "post_form =
     [(js ''csrf_token'', FormString (js ''csrf-1'')),
      (js ''state'', FormString (js ''eyJvYXV0aFJlcUluZm8iOnsicmVzcG9uc2VUeXBlIjoiY29kZSIsImNsaWVudElkIjoiYWJjIiwicmVkaXJlY3RVcmkiOiJodHRwczovL2NsaWVudC5leGFtcGxlL2NiIiwic2NvcGUiOlsicmVhZCJdLCJzdGF0ZSI6Inh5eiJ9fQ==''))]"

definition approved_cookie :: jsstring where
  \<comment> \<open>the cookie pair of the directive \<open>addApprovedClient\<close> returns for the client abc\<close>
  "approved_cookie =
     js ''__Host-approved=%5B%22abc%22%5D%7C636f6f6b69652d6b65795b22616263225d''"

section \<open>Literals\<close>

lemma cu_inject [simp]: "cu a = cu b \<longleftrightarrow> a = b"
proof
  assume "cu a = cu b"
  then have "take_bit 16 (of_char a :: nat) = take_bit 16 (of_char b :: nat)"
    by (simp add: cu_def word_of_nat_eq_iff)
  moreover have "(of_char a :: nat) < 2 ^ 16"
    by (rule order_less_trans[OF nat_of_char_less_256]) simp
  moreover have "(of_char b :: nat) < 2 ^ 16"
    by (rule order_less_trans[OF nat_of_char_less_256]) simp
  ultimately have "(of_char a :: nat) = of_char b"
    by (simp add: take_bit_nat_eq_self)
  then show "a = b" by simp
qed simp

lemma js_inject [simp]: "js a = js b \<longleftrightarrow> a = b"
  by (simp add: js_def inj_map_eq_map inj_on_def)

lemma js_Nil [simp]: "js [] = []" "js s = [] \<longleftrightarrow> s = []" "[] = js s \<longleftrightarrow> s = []"
  by (auto simp: js_def)

lemma js_append: "js (a @ b) = js a @ js b"
  by (simp add: js_def)

lemmas lit = cu_def js_def

section \<open>Cookie parsing\<close>

lemma js_split_no_sep: "sep \<notin> set s \<Longrightarrow> js_split sep s = [s]"
  by (induction s) auto

lemma js_split_at_sep:
  "sep \<notin> set a \<Longrightarrow> js_split sep (a @ sep # b) = a # js_split sep b"
  by (induction a) auto

lemma js_trim_id:
  "s \<noteq> [] \<Longrightarrow> \<not> is_js_space (hd s) \<Longrightarrow> \<not> is_js_space (last s) \<Longrightarrow> js_trim s = s"
proof -
  assume a: "s \<noteq> []" "\<not> is_js_space (hd s)" "\<not> is_js_space (last s)"
  then have 1: "dropWhile is_js_space s = s" by (cases s) auto
  from a have "rev s \<noteq> []" "\<not> is_js_space (hd (rev s))" by (auto simp: hd_rev)
  then have 2: "dropWhile is_js_space (rev s) = rev s" by (cases "rev s") auto
  show ?thesis by (simp add: js_trim_def 1 2)
qed

lemma hexdigit_cases:
  "hexdigit n \<in> set (js ''0123456789abcdef'')"
proof -
  have "n mod 16 < length (js ''0123456789abcdef'')" by (simp add: js_def)
  then show ?thesis unfolding hexdigit_def by (rule nth_mem)
qed

lemma hex_of_bytes_is_hex: "c \<in> set (hex_of_bytes bs) \<Longrightarrow> is_hex c"
  using hexdigit_cases by (auto simp: hex_of_bytes_def hex2_def is_hex_def)

lemma is_hex_plain:
  "is_hex c \<Longrightarrow> c \<noteq> cu (CHR '';'') \<and> c \<noteq> cu (CHR ''='') \<and> c \<noteq> cu (CHR ''|'') \<and> \<not> is_js_space c"
  by (auto simp: is_hex_def is_js_space_def lit)

lemma hex_plain_char: "is_hex c \<Longrightarrow> plain_char c"
  using is_hex_plain by (simp add: plain_char_def)

lemma parseCookies_pair:
  assumes nm: "name \<noteq> []" "cu (CHR '';'') \<notin> set name" "cu (CHR ''='') \<notin> set name"
      "\<not> is_js_space (hd name)" "\<not> is_js_space (last name)"
    and v: "\<forall>c \<in> set v. plain_char c"
  shows "parseCookies (name @ cu (CHR ''='') # v) name = Some v"
proof -
  let ?pair = "name @ cu (CHR ''='') # v"
  from v have nosemi: "cu (CHR '';'') \<notin> set ?pair" using nm by (auto simp: plain_char_def)
  have noeq: "cu (CHR ''='') \<notin> set v" using v by (auto simp: plain_char_def)
  have lastp: "\<not> is_js_space (last ?pair)"
  proof (cases "v = []")
    case True then show ?thesis by (simp add: is_js_space_def lit)
  next
    case False
    then have "last ?pair = last v" by simp
    moreover have "last v \<in> set v" using False by simp
    ultimately show ?thesis using v by (auto simp: plain_char_def)
  qed
  have hdp: "\<not> is_js_space (hd ?pair)" using nm by (simp add: hd_append)
  have trim: "js_trim ?pair = ?pair" using hdp lastp by (intro js_trim_id) auto
  have sp: "js_split (cu (CHR ''='')) ?pair = [name, v]"
    using js_split_at_sep[OF nm(3), of v] js_split_no_sep[OF noeq] by simp
  have tv: "js_trim v = v"
  proof (cases "v = []")
    case True then show ?thesis by (simp add: js_trim_def)
  next
    case False
    then have "hd v \<in> set v" "last v \<in> set v" by simp_all
    then show ?thesis using v False by (intro js_trim_id) (auto simp: plain_char_def)
  qed
  have tn: "js_trim name = name" using nm by (intro js_trim_id) auto
  have "parseCookies ?pair = cookie_step Map.empty ?pair"
    using js_split_no_sep[OF nosemi] by (simp add: parseCookies_def)
  moreover have "cookie_step Map.empty ?pair name = Some v"
    using nm(1) by (simp add: cookie_step_def trim sp tv tn)
  ultimately show ?thesis by simp
qed

lemma cookie_pair_prefix:
  "\<forall>c \<in> set p. c \<noteq> cu (CHR '';'') \<Longrightarrow> cookie_pair (p @ cu (CHR '';'') # rest) = p"
  by (simp add: cookie_pair_def takeWhile_tail)

lemma cookie_pair_bind:
  "cookie_pair (bindStateToSession P tok) = js ''__Host-session='' @ sha256 P tok"
proof -
  have e: "bindStateToSession P tok =
             (js ''__Host-session='' @ sha256 P tok)
               @ cu (CHR '';'') # js '' HttpOnly; Secure; SameSite=Lax; Path=/; Max-Age=600''"
    by (simp add: bindStateToSession_def js_def)
  have "\<forall>c \<in> set (js ''__Host-session='' @ sha256 P tok). c \<noteq> cu (CHR '';'')"
    using hex_of_bytes_is_hex is_hex_plain by (auto simp: sha256_def js_def)
  then show ?thesis unfolding e by (rule cookie_pair_prefix)
qed

lemma session_cookie_presented:
  "cookie_header req = Some (cookie_pair (bindStateToSession P tok)) \<Longrightarrow>
   request_cookies req (js ''__Host-session'') = Some (sha256 P tok)"
proof -
  assume h: "cookie_header req = Some (cookie_pair (bindStateToSession P tok))"
  have "parseCookies (js ''__Host-session'' @ cu (CHR ''='') # sha256 P tok) (js ''__Host-session'')
          = Some (sha256 P tok)"
    by (rule parseCookies_pair)
       (auto simp: is_js_space_def sha256_def lit dest: hex_of_bytes_is_hex hex_plain_char)
  then show ?thesis using h by (simp add: request_cookies_def cookie_pair_bind js_def)
qed

section \<open>CSRF validation\<close>

lemma validateCSRFToken_cases:
  "validateCSRFToken req =
     (case submitted_token req of
        None \<Rightarrow> Inl (OAuthError 400 (js ''Missing CSRF token''))
      | Some t \<Rightarrow> if request_cookies req (js ''__Host-csrf'') = Some t then Inr ()
                  else Inl (OAuthError 403 (js ''CSRF token mismatch'')))"
  by (auto simp: validateCSRFToken_def submitted_token_def falsy_def Let_def
           split: option.splits form_value.splits)

lemma authorize_post_csrf_error:
  "validateCSRFToken req = Inl (OAuthError st m) \<Longrightarrow>
   authorize_post P e uuid now req w = (toResponse st m, w)"
  by (simp add: authorize_post_def)

text \<open>
  Claim C3, as the code has it. \<open>validateCSRFToken\<close> fails with the missing-token error
  (400) when the submitted form token is absent, empty or not a string. It fails with the
  mismatch error (403) when the form token is there and the CSRF cookie is absent, empty
  or different. It succeeds exactly when the submitted token is not empty and equals the
  cookie token. \<open>POST /authorize\<close> answers with the status of the error.
\<close>

theorem csrf_validation_outcomes:
  "(submitted_token req = None \<longrightarrow>
      validateCSRFToken req = Inl (OAuthError 400 (js ''Missing CSRF token''))
      \<and> status (fst (authorize_post P e uuid now req w)) = 400)
   \<and> (\<forall>t. submitted_token req = Some t \<and> request_cookies req (js ''__Host-csrf'') \<noteq> Some t \<longrightarrow>
          validateCSRFToken req = Inl (OAuthError 403 (js ''CSRF token mismatch''))
          \<and> status (fst (authorize_post P e uuid now req w)) = 403)
   \<and> (validateCSRFToken req = Inr () \<longleftrightarrow>
          (\<exists>t. submitted_token req = Some t \<and> request_cookies req (js ''__Host-csrf'') = Some t))"
  by (auto simp: validateCSRFToken_cases authorize_post_csrf_error toResponse_def
           split: option.splits)

section \<open>State store and session binding\<close>

lemma hex_of_bytes_nonempty: "bs \<noteq> [] \<Longrightarrow> hex_of_bytes bs \<noteq> []"
  by (cases bs) (auto simp: hex_of_bytes_def hex2_def)

lemma validateOAuthState_bound:
  assumes "map_of (url_query req) (js ''state'') = Some tok" "tok \<noteq> []"
    and "request_cookies req (js ''__Host-session'') = Some (sha256 P tok)"
    and "sha256_digest P tok \<noteq> []"
  shows "validateOAuthState P now req w =
     (case kv_get now (js ''oauth_state:'' @ tok) w of
        (None, w1) \<Rightarrow> (Inl (OAuthError 400 (js ''Invalid or expired state'')), w1)
      | (Some stored, w1) \<Rightarrow>
          if stored = [] then (Inl (OAuthError 400 (js ''Invalid or expired state'')), w1)
          else (case parse_request P stored of
                  None \<Rightarrow> (Inl SyntaxError, kv_delete (js ''oauth_state:'' @ tok) w1)
                | Some oauthReqInfo \<Rightarrow>
                    (Inr (oauthReqInfo, clearCookie), kv_delete (js ''oauth_state:'' @ tok) w1)))"
  using assms hex_of_bytes_nonempty[of "sha256_digest P tok"]
  by (auto simp: validateOAuthState_def falsy_def sha256_def Let_def
           split: prod.splits option.splits)

lemma consume_stored:
  assumes "map_of (url_query req) (js ''state'') = Some tok" "tok \<noteq> []"
    and "request_cookies req (js ''__Host-session'') = Some (sha256 P tok)"
    and "sha256_digest P tok \<noteq> []"
    and "kv w (js ''oauth_state:'' @ tok) = Some (s, expiry)" "now < expiry" "s \<noteq> []"
    and "parse_request P s = Some info"
  shows "validateOAuthState P now req w =
     (Inr (info, clearCookie),
      w\<lparr>kv := (kv w)(js ''oauth_state:'' @ tok := None),
        trace := trace w @ [KvGet (js ''oauth_state:'' @ tok), KvDelete (js ''oauth_state:'' @ tok)]\<rparr>)"
  using assms(5-8)
  by (simp add: validateOAuthState_bound[OF assms(1-4)] kv_get_def kv_delete_def)

lemma consume_absent:
  assumes "map_of (url_query req) (js ''state'') = Some tok" "tok \<noteq> []"
    and "request_cookies req (js ''__Host-session'') = Some (sha256 P tok)"
    and "sha256_digest P tok \<noteq> []"
    and "kv w (js ''oauth_state:'' @ tok) = None"
  shows "validateOAuthState P now req w =
     (Inl (OAuthError 400 (js ''Invalid or expired state'')),
      w\<lparr>trace := trace w @ [KvGet (js ''oauth_state:'' @ tok)]\<rparr>)"
  using assms(5)
  by (simp add: validateOAuthState_bound[OF assms(1-4)] kv_get_def)

text \<open>
  Claim C2. Saving a pending authorization with \<open>createOAuthState\<close> and consuming the
  returned token with \<open>validateOAuthState\<close>, with the matching session cookie and before
  the record expires, gives back the value that was saved, for a JSON codec that
  round-trips it; the record is deleted, and a second consume of the same token fails
  with the state-not-found error.
\<close>

theorem save_then_consume:
  assumes "uuid \<noteq> []" "sha256_digest P uuid \<noteq> []"
    and "stringify_request P info \<noteq> []"
    and "parse_request P (stringify_request P info) = Some info"
    and "createOAuthState P uuid now info ttl w = (tok, w1)"
    and "map_of (url_query req) (js ''state'') = Some tok"
    and "request_cookies req (js ''__Host-session'') = Some (sha256 P tok)"
    and "now' < now + ttl"
  shows "fst (validateOAuthState P now' req w1) = Inr (info, clearCookie)
       \<and> kv (snd (validateOAuthState P now' req w1)) (js ''oauth_state:'' @ tok) = None
       \<and> fst (validateOAuthState P now'' req (snd (validateOAuthState P now' req w1)))
           = Inl (OAuthError 400 (js ''Invalid or expired state''))"
proof -
  from assms(5) have tok: "tok = uuid"
    and w1: "w1 = kv_put now (js ''oauth_state:'' @ uuid) (stringify_request P info) ttl w"
    by (auto simp: createOAuthState_def)
  have stored: "kv w1 (js ''oauth_state:'' @ tok) = Some (stringify_request P info, now + ttl)"
    by (simp add: w1 tok kv_put_def)
  have b: "map_of (url_query req) (js ''state'') = Some tok" "tok \<noteq> []"
      "request_cookies req (js ''__Host-session'') = Some (sha256 P tok)"
      "sha256_digest P tok \<noteq> []"
    using assms tok by auto
  let ?w2 = "w1\<lparr>kv := (kv w1)(js ''oauth_state:'' @ tok := None),
        trace := trace w1 @ [KvGet (js ''oauth_state:'' @ tok), KvDelete (js ''oauth_state:'' @ tok)]\<rparr>"
  have first: "validateOAuthState P now' req w1 = (Inr (info, clearCookie), ?w2)"
    by (rule consume_stored[OF b stored assms(8) assms(3) assms(4)])
  have gone: "kv ?w2 (js ''oauth_state:'' @ tok) = None" by simp
  have "validateOAuthState P now'' req ?w2 =
     (Inl (OAuthError 400 (js ''Invalid or expired state'')),
      ?w2\<lparr>trace := trace ?w2 @ [KvGet (js ''oauth_state:'' @ tok)]\<rparr>)"
    by (rule consume_absent[OF b gone])
  with first gone show ?thesis by simp
qed

text \<open>
  Claim C4. A callback for a state token that presents the cookie \<open>bindStateToSession\<close>
  made for that token passes the session-binding check and goes on to the store; one that
  presents the cookie made for a token with another hash fails with the session-mismatch
  error and leaves the store alone.
\<close>

theorem session_binding_roundtrip:
  assumes "tok \<noteq> []" "sha256_digest P tok \<noteq> []" "sha256_digest P tok' \<noteq> []"
    and "sha256 P tok' \<noteq> sha256 P tok"
    and "map_of (url_query req) (js ''state'') = Some tok"
    and "map_of (url_query req') (js ''state'') = Some tok"
    and "cookie_header req = Some (cookie_pair (bindStateToSession P tok))"
    and "cookie_header req' = Some (cookie_pair (bindStateToSession P tok'))"
  shows "fst (validateOAuthState P now req w) \<noteq> Inl (OAuthError 400 (js ''Missing state parameter''))
       \<and> fst (validateOAuthState P now req w) \<noteq> Inl (OAuthError 400 (js ''Missing session cookie''))
       \<and> fst (validateOAuthState P now req w) \<noteq> Inl (OAuthError 403 (js ''Session binding mismatch''))
       \<and> KvGet (js ''oauth_state:'' @ tok) \<in> set (trace (snd (validateOAuthState P now req w)))
       \<and> validateOAuthState P now req' w = (Inl (OAuthError 403 (js ''Session binding mismatch'')), w)"
proof -
  have c: "request_cookies req (js ''__Host-session'') = Some (sha256 P tok)"
    by (rule session_cookie_presented[OF assms(7)])
  have c': "request_cookies req' (js ''__Host-session'') = Some (sha256 P tok')"
    by (rule session_cookie_presented[OF assms(8)])
  have ne: "sha256 P tok' \<noteq> []"
    using hex_of_bytes_nonempty[OF assms(3)] by (simp add: sha256_def)
  have pass: "fst (validateOAuthState P now req w) \<noteq> Inl (OAuthError 400 (js ''Missing state parameter''))
       \<and> fst (validateOAuthState P now req w) \<noteq> Inl (OAuthError 400 (js ''Missing session cookie''))
       \<and> fst (validateOAuthState P now req w) \<noteq> Inl (OAuthError 403 (js ''Session binding mismatch''))
       \<and> KvGet (js ''oauth_state:'' @ tok) \<in> set (trace (snd (validateOAuthState P now req w)))"
    by (simp add: validateOAuthState_bound[OF assms(5) assms(1) c assms(2)]
          kv_get_def kv_delete_def split: option.splits prod.splits)
  have fail: "validateOAuthState P now req' w = (Inl (OAuthError 403 (js ''Session binding mismatch'')), w)"
    using assms(1,4,6) c' ne by (simp add: validateOAuthState_def falsy_def)
  from pass fail show ?thesis by simp
qed

text \<open>
  Claim C10. When \<open>validateOAuthState\<close> fails because the state parameter is missing, the
  session cookie is missing or the session hash differs, the store is neither read nor
  changed (the world, with its trace of store calls, is the one before), and the pending
  authorization is still returned to a later callback from the right session.
\<close>

theorem failed_binding_leaves_store:
  assumes "falsy (map_of (url_query req) (js ''state''))
         \<or> falsy (request_cookies req (js ''__Host-session''))
         \<or> (\<exists>t. map_of (url_query req) (js ''state'') = Some t
                \<and> request_cookies req (js ''__Host-session'') \<noteq> Some (sha256 P t))"
    and "map_of (url_query req') (js ''state'') = Some tok" "tok \<noteq> []"
    and "request_cookies req' (js ''__Host-session'') = Some (sha256 P tok)"
    and "sha256_digest P tok \<noteq> []"
    and "kv w (js ''oauth_state:'' @ tok) = Some (s, expiry)" "now' < expiry" "s \<noteq> []"
    and "parse_request P s = Some info"
  shows "snd (validateOAuthState P now req w) = w
       \<and> fst (validateOAuthState P now req w) \<in>
           {Inl (OAuthError 400 (js ''Missing state parameter'')),
            Inl (OAuthError 400 (js ''Missing session cookie'')),
            Inl (OAuthError 403 (js ''Session binding mismatch''))}
       \<and> fst (validateOAuthState P now' req' (snd (validateOAuthState P now req w)))
           = Inr (info, clearCookie)"
proof -
  have same: "snd (validateOAuthState P now req w) = w
       \<and> fst (validateOAuthState P now req w) \<in>
           {Inl (OAuthError 400 (js ''Missing state parameter'')),
            Inl (OAuthError 400 (js ''Missing session cookie'')),
            Inl (OAuthError 403 (js ''Session binding mismatch''))}"
    using assms(1)
    by (auto simp: validateOAuthState_def falsy_def Let_def split: option.splits)
  have "fst (validateOAuthState P now' req' w) = Inr (info, clearCookie)"
    by (simp add: consume_stored[OF assms(2-9)])
  with same show ?thesis by simp
qed

section \<open>The callback\<close>

lemma validateOAuthState_shape:
  "validateOAuthState P now req w = (r, w1) \<Longrightarrow>
     (\<exists>m. r = Inl (OAuthError 400 m)) \<or> (\<exists>m. r = Inl (OAuthError 403 m))
     \<or> r = Inl SyntaxError \<or> (\<exists>info. r = Inr (info, clearCookie))"
  by (auto simp: validateOAuthState_def Let_def kv_get_def
           split: option.splits if_splits prod.splits)

lemma validateOAuthState_issued:
  "validateOAuthState P now req w = (r, w1) \<Longrightarrow> issued w1 = issued w"
  by (auto simp: validateOAuthState_def Let_def kv_get_def kv_delete_def issued_def
           split: option.splits if_splits prod.splits)

lemma fetchLineToken_error_shape:
  "fetchLineToken svc code ch sec redir w = (Inr (Inl resp), w2) \<Longrightarrow>
     status resp = 500 \<and> headers resp = []"
  by (auto simp: fetchLineToken_def Let_def split: option.splits if_splits)

lemma clearCookie_nonempty: "clearCookie \<noteq> []"
  by (simp add: clearCookie_def)

text \<open>
  Claim C1, as the code has it. A response of \<open>GET /callback\<close> carries the directive
  that clears the session cookie exactly when it is the 302 of a completed flow; every
  other response of the handler carries no Set-Cookie header at all.
\<close>

theorem callback_set_cookie:
  assumes r: "fst (callback P e svc now req w) = Inr r"
  shows "set_cookies r = (if status r = 302 then [clearCookie] else [])"
proof -
  obtain w' where assms: "callback P e svc now req w = (Inr r, w')"
    using r by (cases "callback P e svc now req w") auto
  obtain v w1 where v: "validateOAuthState P now req w = (v, w1)" by (cases "validateOAuthState P now req w")
  from validateOAuthState_shape[OF v]
  consider (e400) m where "v = Inl (OAuthError 400 m)"
    | (e403) m where "v = Inl (OAuthError 403 m)"
    | (syn) "v = Inl SyntaxError"
    | (ok) info where "v = Inr (info, clearCookie)" by blast
  then show ?thesis
  proof cases
    case e400
    with assms v show ?thesis by (auto simp: callback_def toResponse_def set_cookies_def)
  next
    case e403
    with assms v show ?thesis by (auto simp: callback_def toResponse_def set_cookies_def)
  next
    case syn
    with assms v show ?thesis by (auto simp: callback_def c_text_def set_cookies_def)
  next
    case ok
    show ?thesis
    proof (cases "clientId info = [] \<or> falsy (map_of (url_query req) (js ''code''))")
      case True
      with assms v ok show ?thesis
        by (auto simp: callback_def c_text_def set_cookies_def split: if_splits)
    next
      case False
      obtain t w2 where t: "fetchLineToken svc
                    (case map_of (url_query req) (js ''code'') of Some c \<Rightarrow> c | None \<Rightarrow> [])
                    (LINE_CHANNEL_ID e) (LINE_CHANNEL_SECRET e) (getCallbackUrl req) w1 = (t, w2)"
        by (cases "fetchLineToken svc
                    (case map_of (url_query req) (js ''code'') of Some c \<Rightarrow> c | None \<Rightarrow> [])
                    (LINE_CHANNEL_ID e) (LINE_CHANNEL_SECRET e) (getCallbackUrl req) w1")
      show ?thesis
      proof (cases t)
        case (Inl err)
        with assms v ok False t show ?thesis by (simp add: callback_def)
      next
        case (Inr tr)
        show ?thesis
        proof (cases tr)
          case (Inl errResponse)
          with fetchLineToken_error_shape t Inr
          have "status errResponse = 500 \<and> headers errResponse = []" by blast
          with assms v ok False t Inr Inl show ?thesis
            by (auto simp: callback_def set_cookies_def)
        next
          case tok: (Inr lineAccessToken)
          with assms v ok False t Inr show ?thesis
            by (auto simp: callback_def set_cookies_def c_text_def Let_def clearCookie_nonempty
                     split: prod.splits sum.splits option.splits)
        qed
      qed
    qed
  qed
qed

text \<open>
  Claim C6, as the code has it. When the value stored under the state token does not
  parse, \<open>validateOAuthState\<close> throws the parser's \<open>SyntaxError\<close> after it has deleted
  the record, and \<open>GET /callback\<close> catches it and answers 500 with the generic text
  \<open>Internal server error\<close>.
\<close>

theorem corrupt_state_generic_failure:
  assumes "map_of (url_query req) (js ''state'') = Some tok" "tok \<noteq> []"
    and "request_cookies req (js ''__Host-session'') = Some (sha256 P tok)"
    and "sha256_digest P tok \<noteq> []"
    and "kv w (js ''oauth_state:'' @ tok) = Some (s, expiry)" "now < expiry" "s \<noteq> []"
    and "parse_request P s = None"
  shows "fst (validateOAuthState P now req w) = Inl SyntaxError
       \<and> kv (snd (validateOAuthState P now req w)) (js ''oauth_state:'' @ tok) = None
       \<and> fst (callback P e svc now req w) = Inr (c_text (js ''Internal server error'') 500)"
proof -
  have "validateOAuthState P now req w =
          (Inl SyntaxError, kv_delete (js ''oauth_state:'' @ tok) (snd (kv_get now (js ''oauth_state:'' @ tok) w)))"
    using assms(5-8)
    by (simp add: validateOAuthState_bound[OF assms(1-4)] kv_get_def)
  then show ?thesis by (simp add: callback_def kv_delete_def kv_get_def)
qed

text \<open>
  Claim C9. On a callback that passes the state validation, has a code, and gets a token
  and a profile from the identity provider, a sign-in that reports an error gives the 403
  response with the text \<open>Account not found. Please register via the app first.\<close>, and
  the token issuance is not called.
\<close>

theorem account_not_linked:
  assumes "fst (validateOAuthState P now req w) = Inr (info, cc)" "clientId info \<noteq> []"
    and "map_of (url_query req) (js ''code'') = Some code" "code \<noteq> []"
    and "tr_ok (line_token_fetch svc
            \<lparr>grant_type = js ''authorization_code'', tq_code = code,
             redirect_uri = getCallbackUrl req, client_id = LINE_CHANNEL_ID e,
             client_secret = LINE_CHANNEL_SECRET e\<rparr>)"
    and "tr_json (line_token_fetch svc
            \<lparr>grant_type = js ''authorization_code'', tq_code = code,
             redirect_uri = getCallbackUrl req, client_id = LINE_CHANNEL_ID e,
             client_secret = LINE_CHANNEL_SECRET e\<rparr>) = Some (Some tok)" "tok \<noteq> []"
    and "pr_ok (line_profile_fetch svc tok)" "pr_json (line_profile_fetch svc tok) = Some prof"
    and "signInWithPassword svc (SUPABASE_URL e) (SUPABASE_ANON_KEY e)
           (userId prof @ js ''@line.com'') (COMMON_PASSWORD_PREFIX e @ take 6 (userId prof)) = Inl err"
  shows "fst (callback P e svc now req w) =
           Inr \<lparr>status = 403,
                body = Text (js ''Account not found. Please register via the app first.''),
                headers = []\<rparr>
       \<and> issued (snd (callback P e svc now req w)) = issued w"
proof -
  obtain w1 where v: "validateOAuthState P now req w = (Inr (info, cc), w1)"
    using assms(1) by (cases "validateOAuthState P now req w") auto
  have i1: "issued w1 = issued w" by (rule validateOAuthState_issued[OF v])
  show ?thesis
    using v assms(2-) i1
    by (simp add: callback_def falsy_def fetchLineToken_def fetchLineProfile_def
          signInWithLineId_def Let_def log_event_def issued_def)
qed

section \<open>Percent-encoding and the approval cookie\<close>

lemma HEXDIGIT_cases: "HEXDIGIT n \<in> set (js ''0123456789ABCDEF'')"
proof -
  have "n mod 16 < length (js ''0123456789ABCDEF'')" by (simp add: js_def)
  then show ?thesis unfolding HEXDIGIT_def by (rule nth_mem)
qed

lemma lt16:
  "(a::nat) < 16 \<Longrightarrow> a = 0 \<or> a = 1 \<or> a = 2 \<or> a = 3 \<or> a = 4 \<or> a = 5 \<or> a = 6 \<or> a = 7
     \<or> a = 8 \<or> a = 9 \<or> a = 10 \<or> a = 11 \<or> a = 12 \<or> a = 13 \<or> a = 14 \<or> a = 15"
  by arith

lemma hexval_HEXDIGIT: "a < 16 \<Longrightarrow> hexval (HEXDIGIT a) = Some a"
proof -
  assume "a < 16"
  from lt16[OF this] show ?thesis
    by (elim disjE) (simp_all add: HEXDIGIT_def hexval_def lit)
qed

lemma hex_byte_pct:
  "b < 256 \<Longrightarrow> hex_byte (HEXDIGIT (b div 16)) (HEXDIGIT (b mod 16)) = Some b"
  by (simp add: hex_byte_def hexval_HEXDIGIT less_mult_imp_div_less)

lemma pct_tokens_pct:
  "b < 256 \<Longrightarrow> pct_tokens (pct b @ rest) = map_option ((#) (Octet b)) (pct_tokens rest)"
  by (simp add: pct_def hex_byte_pct)

lemma pct_tokens_render:
  assumes "\<forall>t \<in> set ts. (\<forall>c. t = Lit c \<longrightarrow> c \<noteq> cu (CHR ''%'')) \<and> (\<forall>b. t = Octet b \<longrightarrow> b < 256)"
  shows "pct_tokens (concat (map render ts)) = Some ts"
  using assms
proof (induction ts)
  case Nil
  then show ?case by simp
next
  case (Cons t ts)
  then have ih: "pct_tokens (concat (map render ts)) = Some ts" by simp
  show ?case
  proof (cases t)
    case (Lit c)
    with Cons.prems have "c \<noteq> cu (CHR ''%'')" by simp
    with Lit ih show ?thesis by simp
  next
    case (Octet b)
    with Cons.prems have "b < 256" by simp
    with Octet ih show ?thesis by (simp add: pct_tokens_pct del: pct_tokens.simps)
  qed
qed


lemma utf8_units_1:
  "cp < 0x80 \<Longrightarrow>
   utf8_units (map Octet (utf8 cp) @ ts) = map_option ((#) (of_nat cp)) (utf8_units ts)"
  by (simp add: utf8_def)

lemma utf8_units_2:
  assumes "0x80 \<le> cp" "cp < 0x800"
  shows "utf8_units (map Octet (utf8 cp) @ ts) = map_option ((#) (of_nat cp)) (utf8_units ts)"
proof -
  define q where "q = cp div 64"
  define r where "r = cp mod 64"
  have cp: "cp = q * 64 + r" by (simp add: q_def r_def)
  have r: "r < 64" by (simp add: r_def)
  have "128 div 64 \<le> cp div 64" using assms(1) by (rule div_le_mono)
  then have q1: "2 \<le> q" by (simp add: q_def)
  have q2: "q < 32" using assms(2) by (simp add: q_def less_mult_imp_div_less)
  have u: "utf8 cp = [0xC0 + q, 0x80 + r]"
    using assms by (simp add: utf8_def q_def r_def)
  show ?thesis
    unfolding u using q1 q2 r by (simp add: continuation_def cp)
qed

lemma utf8_units_three:
  assumes "0xE0 \<le> l" "l \<le> 0xEF" "continuation b2" "continuation b3"
    and "(l - 0xE0) * 4096 + (b2 - 0x80) * 64 + (b3 - 0x80) = cp"
    and "0x800 \<le> cp" "\<not> (0xD800 \<le> cp \<and> cp \<le> 0xDFFF)"
  shows "utf8_units (Octet l # Octet b2 # Octet b3 # ts)
           = map_option ((#) (of_nat cp)) (utf8_units ts)"
  using assms by (simp add: Let_def)

lemma utf8_units_four:
  assumes "0xF0 \<le> l" "l \<le> 0xF4" "continuation b2" "continuation b3" "continuation b4"
    and "(l - 0xF0) * 262144 + (b2 - 0x80) * 4096 + (b3 - 0x80) * 64 + (b4 - 0x80) = cp"
    and "0x10000 \<le> cp" "cp \<le> 0x10FFFF"
  shows "utf8_units (Octet l # Octet b2 # Octet b3 # Octet b4 # ts)
           = map_option (\<lambda>r. of_nat (0xD800 + (cp - 0x10000) div 1024)
                             # of_nat (0xDC00 + (cp - 0x10000) mod 1024) # r)
               (utf8_units ts)"
  using assms by (simp add: Let_def)

lemma utf8_units_3:
  assumes "0x800 \<le> cp" "cp < 0x10000" "\<not> (0xD800 \<le> cp \<and> cp \<le> 0xDFFF)"
  shows "utf8_units (map Octet (utf8 cp) @ ts) = map_option ((#) (of_nat cp)) (utf8_units ts)"
proof -
  define a where "a = cp div 4096"
  define b where "b = (cp div 64) mod 64"
  define c where "c = cp mod 64"
  have "cp div 64 = (cp div 64 div 64) * 64 + (cp div 64) mod 64" by simp
  moreover have "cp div 64 div 64 = cp div 4096" by (simp add: div_mult2_eq[symmetric])
  ultimately have d: "cp div 64 = a * 64 + b" by (simp add: a_def b_def)
  have "cp = (cp div 64) * 64 + cp mod 64" by simp
  then have cp: "cp = a * 4096 + b * 64 + c" unfolding d c_def by simp
  have b: "b < 64" and c: "c < 64" by (simp_all add: b_def c_def)
  have a: "a < 16" using assms(2) by (simp add: a_def less_mult_imp_div_less)
  have u: "map Octet (utf8 cp) @ ts = Octet (0xE0 + a) # Octet (0x80 + b) # Octet (0x80 + c) # ts"
    using assms by (simp add: utf8_def a_def b_def c_def)
  show ?thesis
    unfolding u
  proof (rule utf8_units_three)
    show "(0xE0 + a - 0xE0) * 4096 + (0x80 + b - 0x80) * 64 + (0x80 + c - 0x80) = cp"
      by (simp add: cp)
  qed (use a b c assms in \<open>simp_all add: continuation_def\<close>)
qed

lemma utf8_units_4:
  assumes "0x10000 \<le> cp" "cp < 0x110000"
  shows "utf8_units (map Octet (utf8 cp) @ ts) =
           map_option (\<lambda>r. of_nat (0xD800 + (cp - 0x10000) div 1024)
                             # of_nat (0xDC00 + (cp - 0x10000) mod 1024) # r)
             (utf8_units ts)"
proof -
  define a where "a = cp div 262144"
  define b where "b = (cp div 4096) mod 64"
  define c where "c = (cp div 64) mod 64"
  define d where "d = cp mod 64"
  have "cp div 64 div 64 = cp div 4096" by (simp add: div_mult2_eq[symmetric])
  moreover have "cp div 4096 div 64 = cp div 262144" by (simp add: div_mult2_eq[symmetric])
  moreover have "cp div 4096 = (cp div 4096 div 64) * 64 + (cp div 4096) mod 64" by simp
  ultimately have e1: "cp div 4096 = a * 64 + b" by (simp add: a_def b_def)
  have "cp div 64 = (cp div 64 div 64) * 64 + (cp div 64) mod 64" by simp
  moreover have "cp div 64 div 64 = cp div 4096" by (simp add: div_mult2_eq[symmetric])
  ultimately have e2: "cp div 64 = (a * 64 + b) * 64 + c" using e1 by (simp add: c_def)
  have "cp = (cp div 64) * 64 + cp mod 64" by simp
  then have cp: "cp = a * 262144 + b * 4096 + c * 64 + d" unfolding e2 d_def by simp
  have b: "b < 64" and c: "c < 64" and d: "d < 64" by (simp_all add: b_def c_def d_def)
  have a: "a < 5"
  proof -
    have "cp < 5 * 262144" using assms(2) by simp
    then show ?thesis unfolding a_def by (simp add: less_mult_imp_div_less)
  qed
  have u: "map Octet (utf8 cp) @ ts
             = Octet (0xF0 + a) # Octet (0x80 + b) # Octet (0x80 + c) # Octet (0x80 + d) # ts"
    using assms by (simp add: utf8_def a_def b_def c_def d_def)
  show ?thesis
    unfolding u
  proof (rule utf8_units_four)
    show "(0xF0 + a - 0xF0) * 262144 + (0x80 + b - 0x80) * 4096 + (0x80 + c - 0x80) * 64
             + (0x80 + d - 0x80) = cp"
      by (simp add: cp)
  qed (use a b c d assms in \<open>simp_all add: continuation_def\<close>)
qed

lemma utf8_lt256: "cp < 0x110000 \<Longrightarrow> b \<in> set (utf8 cp) \<Longrightarrow> b < 256"
proof -
  assume cp: "cp < 0x110000" and b: "b \<in> set (utf8 cp)"
  have m: "\<And>n. n mod 64 < (64::nat)" by simp
  have a2: "cp < 0x800 \<Longrightarrow> cp div 64 < 32" by (simp add: less_mult_imp_div_less)
  have a3: "cp < 0x10000 \<Longrightarrow> cp div 4096 < 16" by (simp add: less_mult_imp_div_less)
  have "cp < 5 * 262144" using cp by simp
  then have a4: "cp div 262144 < 5" by (simp add: less_mult_imp_div_less)
  have m1: "cp mod 64 < 64" "cp div 64 mod 64 < 64" "cp div 4096 mod 64 < 64" by simp_all
  show ?thesis
    using b a2 a3 a4 m1 by (auto simp: utf8_def split: if_splits)
qed

lemma utf8_nonempty: "utf8 cp \<noteq> []"
  by (simp add: utf8_def)


lemma unat_code_unit: "unat (c :: code_unit) < 65536"
  using unsigned_less[of c, where 'a=nat] by simp

lemma not_surrogate:
  "\<not> is_low_surrogate c \<Longrightarrow> \<not> is_high_surrogate c
     \<Longrightarrow> \<not> (0xD800 \<le> unat c \<and> unat c \<le> 0xDFFF)"
  by (auto simp: is_low_surrogate_def is_high_surrogate_def word_le_nat_alt)

lemma pair_code_point_range:
  assumes "is_high_surrogate hi" "is_low_surrogate lo"
  shows "0x10000 \<le> pair_code_point hi lo" "pair_code_point hi lo < 0x110000"
    "(pair_code_point hi lo - 0x10000) div 1024 = unat hi - 0xD800"
    "(pair_code_point hi lo - 0x10000) mod 1024 = unat lo - 0xDC00"
proof -
  have h: "0xD800 \<le> unat hi" "unat hi \<le> 0xDBFF"
    using assms(1) by (simp_all add: is_high_surrogate_def word_le_nat_alt)
  have l: "0xDC00 \<le> unat lo" "unat lo \<le> 0xDFFF"
    using assms(2) by (simp_all add: is_low_surrogate_def word_le_nat_alt)
  define x where "x = unat hi - 0xD800"
  define y where "y = unat lo - 0xDC00"
  have x: "x < 1024" and y: "y < 1024" using h l by (simp_all add: x_def y_def)
  have p: "pair_code_point hi lo = 0x10000 + x * 1024 + y"
    by (simp add: pair_code_point_def x_def y_def)
  show "0x10000 \<le> pair_code_point hi lo" by (simp add: p)
  show "pair_code_point hi lo < 0x110000" using x y by (simp add: p)
  show "(pair_code_point hi lo - 0x10000) div 1024 = unat hi - 0xD800"
    using y by (simp add: p x_def[symmetric])
  show "(pair_code_point hi lo - 0x10000) mod 1024 = unat lo - 0xDC00"
    using y by (simp add: p y_def[symmetric])
qed

lemma utf8_units_code_unit:
  assumes "\<not> is_low_surrogate c" "\<not> is_high_surrogate c"
  shows "utf8_units (map Octet (utf8 (unat c)) @ ts) = map_option ((#) c) (utf8_units ts)"
proof -
  have ns: "\<not> (0xD800 \<le> unat c \<and> unat c \<le> 0xDFFF)" by (rule not_surrogate[OF assms])
  have lt: "unat c < 0x10000" using unat_code_unit[of c] by simp
  consider "unat c < 0x80" | "0x80 \<le> unat c" "unat c < 0x800" | "0x800 \<le> unat c"
    by linarith
  then have "utf8_units (map Octet (utf8 (unat c)) @ ts)
               = map_option ((#) (of_nat (unat c))) (utf8_units ts)"
  proof cases
    case 1 then show ?thesis by (rule utf8_units_1)
  next
    case 2 then show ?thesis by (rule utf8_units_2)
  next
    case 3 then show ?thesis using lt ns by (rule utf8_units_3)
  qed
  then show ?thesis by simp
qed

lemma utf8_units_pair:
  assumes "is_high_surrogate hi" "is_low_surrogate lo"
  shows "utf8_units (map Octet (utf8 (pair_code_point hi lo)) @ ts)
           = map_option (\<lambda>r. hi # lo # r) (utf8_units ts)"
proof -
  note r = pair_code_point_range[OF assms]
  have h: "0xD800 \<le> unat hi" using assms(1) by (simp add: is_high_surrogate_def word_le_nat_alt)
  have l: "0xDC00 \<le> unat lo" using assms(2) by (simp add: is_low_surrogate_def word_le_nat_alt)
  have "(of_nat (0xD800 + (unat hi - 0xD800)) :: code_unit) = of_nat (unat hi)"
    using h by (simp del: of_nat_add of_nat_diff)
  then have a: "(of_nat (0xD800 + (unat hi - 0xD800)) :: code_unit) = hi" by simp
  have "(of_nat (0xDC00 + (unat lo - 0xDC00)) :: code_unit) = of_nat (unat lo)"
    using l by (simp del: of_nat_add of_nat_diff)
  then have b: "(of_nat (0xDC00 + (unat lo - 0xDC00)) :: code_unit) = lo" by simp
  show ?thesis
    by (simp only: utf8_units_4[OF r(1,2)] r(3,4) a b)
qed

lemma uri_tokens_units: "uri_tokens s = Some ts \<Longrightarrow> utf8_units ts = Some s"
proof (induction s arbitrary: ts rule: uri_tokens.induct)
  case 1
  then show ?case by simp
next
  case (2 c cs)
  show ?case
  proof (cases "uri_unreserved c")
    case True
    with "2.prems" obtain ts' where t: "uri_tokens cs = Some ts'" "ts = Lit c # ts'" by auto
    from "2.IH"(1)[OF True t(1)] t(2) show ?thesis by simp
  next
    case ur: False
    show ?thesis
    proof (cases "is_low_surrogate c")
      case True
      with ur "2.prems" show ?thesis by simp
    next
      case lo: False
      show ?thesis
      proof (cases "is_high_surrogate c")
        case hi: True
        from ur lo hi "2.prems" obtain d ds ts' where
          cs: "cs = d # ds" and d: "is_low_surrogate d" and t: "uri_tokens ds = Some ts'"
          and ts: "ts = map Octet (utf8 (pair_code_point c d)) @ ts'"
          by (auto split: list.splits if_splits)
        have ih: "utf8_units ts' = Some ds" by (rule "2.IH"(2)[OF ur lo hi cs d t])
        show ?thesis by (simp add: ts cs utf8_units_pair[OF hi d] ih)
      next
        case hi: False
        from ur lo hi "2.prems" obtain ts' where
          t: "uri_tokens cs = Some ts'" and ts: "ts = map Octet (utf8 (unat c)) @ ts'"
          by auto
        have ih: "utf8_units ts' = Some cs" by (rule "2.IH"(3)[OF ur lo hi t])
        show ?thesis by (simp add: ts utf8_units_code_unit[OF lo hi] ih)
      qed
    qed
  qed
qed

lemma uri_tokens_shape:
  "uri_tokens s = Some ts \<Longrightarrow>
   \<forall>t \<in> set ts. (\<forall>c. t = Lit c \<longrightarrow> uri_unreserved c) \<and> (\<forall>b. t = Octet b \<longrightarrow> b < 256)"
proof (induction s arbitrary: ts rule: uri_tokens.induct)
  case 1
  then show ?case by simp
next
  case (2 c cs)
  show ?case
  proof (cases "uri_unreserved c")
    case True
    with "2.prems" obtain ts' where t: "uri_tokens cs = Some ts'" "ts = Lit c # ts'" by auto
    from "2.IH"(1)[OF True t(1)] t(2) True show ?thesis by simp
  next
    case ur: False
    show ?thesis
    proof (cases "is_low_surrogate c")
      case True
      with ur "2.prems" show ?thesis by simp
    next
      case lo: False
      show ?thesis
      proof (cases "is_high_surrogate c")
        case hi: True
        from ur lo hi "2.prems" obtain d ds ts' where
          cs: "cs = d # ds" and d: "is_low_surrogate d" and t: "uri_tokens ds = Some ts'"
          and ts: "ts = map Octet (utf8 (pair_code_point c d)) @ ts'"
          by (auto split: list.splits if_splits)
        note ih = "2.IH"(2)[OF ur lo hi cs d t]
        from ih utf8_lt256[OF pair_code_point_range(2)[OF hi d]] show ?thesis
          by (auto simp: ts)
      next
        case hi: False
        from ur lo hi "2.prems" obtain ts' where
          t: "uri_tokens cs = Some ts'" and ts: "ts = map Octet (utf8 (unat c)) @ ts'"
          by auto
        note ih = "2.IH"(3)[OF ur lo hi t]
        have "unat c < 0x110000" using unat_code_unit[of c] by simp
        from ih utf8_lt256[OF this] show ?thesis
          by (auto simp: ts)
      qed
    qed
  qed
qed

lemma uri_tokens_nonempty: "s \<noteq> [] \<Longrightarrow> uri_tokens s = Some ts \<Longrightarrow> ts \<noteq> []"
  by (cases s) (auto simp: utf8_nonempty split: if_splits list.splits)

lemma unreserved_not_percent: "uri_unreserved c \<Longrightarrow> c \<noteq> cu (CHR ''%'')"
  by (auto simp: uri_unreserved_def is_alnum_def lit)

lemma decode_encode: "encodeURIComponent s = Some e \<Longrightarrow> decodeURIComponent e = Some s"
proof -
  assume "encodeURIComponent s = Some e"
  then obtain ts where t: "uri_tokens s = Some ts" and e: "e = concat (map render ts)"
    by (auto simp: encodeURIComponent_def)
  have "pct_tokens e = Some ts"
    unfolding e using uri_tokens_shape[OF t] unreserved_not_percent
    by (intro pct_tokens_render) blast
  then show ?thesis by (simp add: decodeURIComponent_def uri_tokens_units[OF t])
qed

lemma unreserved_plain: "uri_unreserved c \<Longrightarrow> plain_char c"
  by (auto simp: uri_unreserved_def is_alnum_def plain_char_def is_js_space_def lit
        word_le_nat_alt)

lemma HEXDIGIT_plain: "plain_char (HEXDIGIT n)"
  using HEXDIGIT_cases[of n] by (auto simp: plain_char_def is_js_space_def lit)

lemma render_plain:
  "(\<forall>c. t = Lit c \<longrightarrow> uri_unreserved c) \<Longrightarrow> x \<in> set (render t) \<Longrightarrow> plain_char x"
proof (cases t)
  case (Lit c)
  assume "\<forall>c. t = Lit c \<longrightarrow> uri_unreserved c" "x \<in> set (render t)"
  with Lit show ?thesis by (simp add: unreserved_plain)
next
  case (Octet b)
  assume "x \<in> set (render t)"
  with Octet have "x = cu (CHR ''%'') \<or> x = HEXDIGIT (b div 16) \<or> x = HEXDIGIT (b mod 16)"
    by (simp add: pct_def)
  moreover have "plain_char (cu (CHR ''%''))" by (simp add: plain_char_def is_js_space_def lit)
  ultimately show ?thesis using HEXDIGIT_plain by auto
qed

lemma encode_plain: "encodeURIComponent s = Some e \<Longrightarrow> x \<in> set e \<Longrightarrow> plain_char x"
proof -
  assume "encodeURIComponent s = Some e" and x: "x \<in> set e"
  then obtain ts where t: "uri_tokens s = Some ts" and e: "e = concat (map render ts)"
    by (auto simp: encodeURIComponent_def)
  from x e obtain tk where tk: "tk \<in> set ts" "x \<in> set (render tk)" by auto
  from uri_tokens_shape[OF t] tk(1) have "\<forall>c. tk = Lit c \<longrightarrow> uri_unreserved c" by blast
  then show ?thesis using tk(2) by (rule render_plain)
qed

lemma render_nonempty: "render t \<noteq> []"
  by (cases t) (simp_all add: pct_def)

lemma encode_nonempty: "s \<noteq> [] \<Longrightarrow> encodeURIComponent s = Some e \<Longrightarrow> e \<noteq> []"
proof -
  assume s: "s \<noteq> []" and "encodeURIComponent s = Some e"
  then obtain ts where t: "uri_tokens s = Some ts" and e: "e = concat (map render ts)"
    by (auto simp: encodeURIComponent_def)
  from uri_tokens_nonempty[OF s t] obtain tk ts' where "ts = tk # ts'" by (cases ts) auto
  then show ?thesis using render_nonempty[of tk] by (simp add: e)
qed


lemma lastIndexOf_absent: "c \<notin> set s \<Longrightarrow> lastIndexOf c s = None"
  by (induction s) auto

lemma lastIndexOf_last_sep:
  "c \<notin> set b \<Longrightarrow> lastIndexOf c (a @ c # b) = Some (length a)"
  by (induction a) (auto simp: lastIndexOf_absent)

lemma approved_cookie_read_back:
  assumes sig: "sg = signData P dat secret"
    and enc: "encodeURIComponent (dat @ js ''|'' @ sg) = Some encoded"
    and hdr: "cookie_header req' = Some (cookie_pair
        (js ''__Host-approved='' @ encoded
           @ js ''; HttpOnly; Secure; SameSite=Lax; Path=/; Max-Age=31536000''))"
  shows "getApprovedClientsFromCookie P req' secret =
           (case parse_clients P dat of None \<Rightarrow> Inr [] | Some approved \<Rightarrow> Inr approved)"
proof -
  let ?v = "dat @ cu (CHR ''|'') # signData P dat secret"
  have v: "dat @ js ''|'' @ sg = ?v" by (simp add: sig js_def)
  have plain: "\<forall>c \<in> set encoded. plain_char c" using encode_plain[OF enc] by blast
  have nosemi: "\<forall>c \<in> set (js ''__Host-approved='' @ encoded). c \<noteq> cu (CHR '';'')"
    using plain by (auto simp: plain_char_def lit)
  have pair: "cookie_pair ((js ''__Host-approved='' @ encoded)
        @ cu (CHR '';'') # js '' HttpOnly; Secure; SameSite=Lax; Path=/; Max-Age=31536000'')
      = js ''__Host-approved='' @ encoded"
    by (rule cookie_pair_prefix[OF nosemi])
  have hdr': "cookie_header req' = Some (js ''__Host-approved'' @ cu (CHR ''='') # encoded)"
    using hdr pair by (simp add: js_def)
  have "parseCookies (js ''__Host-approved'' @ cu (CHR ''='') # encoded) (js ''__Host-approved'')
          = Some encoded"
    by (rule parseCookies_pair) (auto simp: is_js_space_def plain lit)
  then have raw: "request_cookies req' (js ''__Host-approved'') = Some encoded"
    using hdr' by (simp add: request_cookies_def)
  have ne: "encoded \<noteq> []" by (rule encode_nonempty[OF _ enc]) simp
  have dec: "decodeURIComponent encoded = Some ?v" using decode_encode[OF enc] by (simp only: v)
  have nopipe: "cu (CHR ''|'') \<notin> set (signData P dat secret)"
    using hex_of_bytes_is_hex is_hex_plain by (auto simp: signData_def)
  have idx: "lastIndexOf (cu (CHR ''|'')) ?v = Some (length dat)"
    by (rule lastIndexOf_last_sep[OF nopipe])
  show ?thesis
    by (simp add: getApprovedClientsFromCookie_def raw ne dec idx verifySignature_def Let_def)
qed

lemma approve_then_approved:
  assumes prior: "getApprovedClientsFromCookie P req secret = Inr approved0"
    and codec: "parse_clients P (stringify_clients P
                  (if client \<notin> set approved0 then approved0 @ [client] else approved0))
                = Some (if client \<notin> set approved0 then approved0 @ [client] else approved0)"
    and made: "addApprovedClient P req client secret = Inr setCookie"
    and hdr: "cookie_header req' = Some (cookie_pair setCookie)"
  shows "isClientApproved P req' client secret = Inr True"
proof -
  let ?approved = "if client \<notin> set approved0 then approved0 @ [client] else approved0"
  let ?dat = "stringify_clients P ?approved"
  let ?sg = "signData P ?dat secret"
  from made prior obtain encoded where
    enc: "encodeURIComponent (?dat @ js ''|'' @ ?sg) = Some encoded"
    and sc: "setCookie = js ''__Host-approved='' @ encoded
           @ js ''; HttpOnly; Secure; SameSite=Lax; Path=/; Max-Age=31536000''"
    by (auto simp: addApprovedClient_def Let_def split: option.splits)
  have "getApprovedClientsFromCookie P req' secret =
           (case parse_clients P ?dat of None \<Rightarrow> Inr [] | Some approved \<Rightarrow> Inr approved)"
    by (rule approved_cookie_read_back[OF refl enc]) (use hdr sc in simp)
  then have "getApprovedClientsFromCookie P req' secret = Inr ?approved"
    using codec by simp
  then show ?thesis by (simp add: isClientApproved_def)
qed

lemma bad_signature_not_approved:
  assumes "request_cookies req (js ''__Host-approved'') = Some raw"
    and "decodeURIComponent raw = Some decoded"
    and "lastIndexOf (cu (CHR ''|'')) decoded = Some i"
    and "signData P (take i decoded) secret \<noteq> drop (Suc i) decoded"
  shows "isClientApproved P req client secret = Inr False"
  using assms
  by (simp add: isClientApproved_def getApprovedClientsFromCookie_def verifySignature_def
        Let_def)

lemma unparsable_list_not_approved:
  assumes "request_cookies req (js ''__Host-approved'') = Some raw"
    and "decodeURIComponent raw = Some decoded"
    and "lastIndexOf (cu (CHR ''|'')) decoded = None
         \<or> (\<exists>i. lastIndexOf (cu (CHR ''|'')) decoded = Some i \<and> parse_clients P (take i decoded) = None)"
  shows "isClientApproved P req client secret = Inr False"
  using assms
  by (auto simp: isClientApproved_def getApprovedClientsFromCookie_def Let_def)

lemma approval_cookie_percent:
  assumes "cookie_header req = Some (js ''__Host-approved=%'')"
  shows "getApprovedClientsFromCookie P req secret = Inl URIError"
proof -
  have "parseCookies (js ''__Host-approved=%'') (js ''__Host-approved'') = Some (js ''%'')"
    by code_simp
  moreover have "decodeURIComponent (js ''%'') = None" by code_simp
  ultimately show ?thesis
    using assms by (simp add: getApprovedClientsFromCookie_def request_cookies_def)
qed

text \<open>
  Claim C5 at the input where the code departs from it: with the approval cookie \<open>%\<close>,
  \<open>decodeURIComponent\<close> throws outside the \<open>try\<close> of
  \<open>getApprovedClientsFromCookie\<close>, and \<open>isClientApproved\<close> throws instead of returning
  false.
\<close>

theorem malformed_approval_cookie_throws:
  "isClientApproved P (req\<lparr>cookie_header := Some (js ''__Host-approved=%'')\<rparr>) client secret
     = Inl URIError"
  by (simp add: isClientApproved_def approval_cookie_percent)

section \<open>The authorize handlers\<close>

lemma fromEntries_two_cookies:
  "Object_fromEntries (Headers_append (Headers_append [] (js ''set-cookie'') a) (js ''set-cookie'') b)
     = [(js ''set-cookie'', b)]"
  by (simp add: Object_fromEntries_def Headers_append_def)

lemma redirectToLine_one_cookie:
  "redirectToLine req tok ch [(js ''set-cookie'', c)] =
     \<lparr>status = 302, body = NoBody,
      headers =
        [(js ''set-cookie'', c),
         (js ''location'',
          js ''https://access.line.me/oauth2/v2.1/authorize?response_type=code&client_id=''
            @ form_urlencode ch
            @ js ''&redirect_uri='' @ form_urlencode (getCallbackUrl req)
            @ js ''&state='' @ form_urlencode tok
            @ js ''&scope=profile+openid'')]\<rparr>"
  by (simp add: redirectToLine_def getLineAuthorizeUrl_def) (simp add: js_def)

lemma form_urlencode_verbatim:
  "\<forall>c \<in> set s. is_alnum c \<or> c \<in> set (js ''*-._'') \<Longrightarrow> form_urlencode s = s"
  by (induction s) (simp_all add: form_urlencode_def)

text \<open>
  \<open>GET /authorize\<close> with a client id, where \<open>isClientApproved\<close> returns true: the
  pending authorization is stored under the new token for 600 seconds, and the response
  is the 302 to the authorize URL of the identity provider, with the new token as its
  \<open>state\<close> parameter, the session-binding cookie of that token and no body.
\<close>

lemma authorize_get_approved:
  assumes "clientId (parseAuthRequest svc req) \<noteq> []"
    and "isClientApproved P req (clientId (parseAuthRequest svc req)) (COOKIE_ENCRYPTION_KEY e)
           = Inr True"
  shows "authorize_get P e svc uuid now req w =
           (Inr \<lparr>status = 302, body = NoBody,
                 headers =
                   [(js ''set-cookie'',
                     js ''__Host-session='' @ hex_of_bytes (sha256_digest P uuid)
                       @ js ''; HttpOnly; Secure; SameSite=Lax; Path=/; Max-Age=600''),
                    (js ''location'',
                     js ''https://access.line.me/oauth2/v2.1/authorize?response_type=code&client_id=''
                       @ form_urlencode (LINE_CHANNEL_ID e)
                       @ js ''&redirect_uri='' @ form_urlencode (getCallbackUrl req)
                       @ js ''&state='' @ form_urlencode uuid
                       @ js ''&scope=profile+openid'')]\<rparr>,
            w\<lparr>kv := (kv w)(js ''oauth_state:'' @ uuid
                        \<mapsto> (stringify_request P (parseAuthRequest svc req), now + 600)),
              trace := trace w @ [KvPut (js ''oauth_state:'' @ uuid)
                                    (stringify_request P (parseAuthRequest svc req)) 600]\<rparr>)"
  using assms
  by (simp add: authorize_get_def createOAuthState_def kv_put_def redirectToLine_one_cookie
        bindStateToSession_def sha256_def Let_def)

text \<open>
  \<open>GET /authorize\<close> with a client id, where \<open>isClientApproved\<close> returns false and the
  JSON text of the pending authorization has no code unit above 0xFF: the response is the
  200 consent page with the CSRF token, its cookie and the base64 of the pending
  authorization, and the store is not touched.
\<close>

lemma authorize_get_consent:
  assumes "clientId (parseAuthRequest svc req) \<noteq> []"
    and "isClientApproved P req (clientId (parseAuthRequest svc req)) (COOKIE_ENCRYPTION_KEY e)
           = Inr False"
    and "btoa (stringify_state P (parseAuthRequest svc req)) = Some encodedState"
  shows "authorize_get P e svc uuid now req w =
           (Inr \<lparr>status = 200,
                 body = ApprovalDialog
                   \<lparr>page_server_name = sanitizeText (js ''My MCP Server''),
                    page_server_description = sanitizeText (js ''Your service description here''),
                    page_client_name =
                      sanitizeText
                        (or_default
                           (case lookupClient svc (clientId (parseAuthRequest svc req)) of
                              None \<Rightarrow> None | Some c \<Rightarrow> clientName c)
                           (or_default
                              (case lookupClient svc (clientId (parseAuthRequest svc req)) of
                                 None \<Rightarrow> None | Some c \<Rightarrow> client_clientId c)
                              (js ''Unknown Client''))),
                    page_csrf_token = uuid,
                    page_state = encodedState\<rparr>,
                 headers =
                   [(js ''content-type'', js ''text/html; charset=utf-8''),
                    (js ''set-cookie'',
                     js ''__Host-csrf='' @ uuid
                       @ js ''; HttpOnly; Secure; SameSite=Strict; Path=/'')]\<rparr>,
            w)"
  using assms
  by (simp add: authorize_get_def generateCSRFProtection_def renderApprovalDialog_def Let_def)

text \<open>
  The same request where the JSON text of the pending authorization has a code unit above
  0xFF (a request parameter outside Latin-1): \<open>btoa\<close> throws and the exception leaves
  the handler.
\<close>

lemma authorize_get_consent_throws:
  assumes "clientId (parseAuthRequest svc req) \<noteq> []"
    and "isClientApproved P req (clientId (parseAuthRequest svc req)) (COOKIE_ENCRYPTION_KEY e)
           = Inr False"
    and "c \<in> set (stringify_state P (parseAuthRequest svc req))" "0xFF < c"
  shows "authorize_get P e svc uuid now req w = (Inl InvalidCharacterError, w)"
proof -
  have "btoa (stringify_state P (parseAuthRequest svc req)) = None"
    using assms(3,4) by (auto simp: btoa_def list_ex_iff)
  then show ?thesis
    using assms(1,2)
    by (simp add: authorize_get_def generateCSRFProtection_def renderApprovalDialog_def Let_def)
qed

text \<open>
  Claim C8 at the input where the code departs from it: for \<open>GET /authorize\<close> with a
  client id and the approval cookie \<open>%\<close>, the handler neither redirects nor renders the
  consent page: the \<open>URIError\<close> of \<open>decodeURIComponent\<close> leaves it, and the store is
  not touched.
\<close>

theorem authorize_get_malformed_cookie_throws:
  assumes "clientId (parseAuthRequest svc req) \<noteq> []"
    and "cookie_header req = Some (js ''__Host-approved=%'')"
  shows "authorize_get P e svc uuid now req w = (Inl URIError, w)"
  using assms(1) approval_cookie_percent[OF assms(2)]
  by (simp add: authorize_get_def isClientApproved_def)

text \<open>
  Claim C7 at the input where the code departs from it: for \<open>POST /authorize\<close> with a
  valid CSRF token, a state field that decodes to a pending authorization with a client
  id, and an approval cookie made by \<open>addApprovedClient\<close>, the response is the 302 to
  the authorize URL of the identity provider with the new token as its \<open>state\<close>
  parameter, and the pending authorization is stored under the token; but the response
  has one Set-Cookie header, the session-binding cookie, and the approval cookie the
  handler appended is not in the response.
\<close>

theorem authorize_post_drops_approval_cookie:
  assumes "validateCSRFToken req = Inr ()"
    and "map_of (form_data req) (js ''state'') = Some (FormString enc)" "enc \<noteq> []"
    and "atob enc = Some t" "parse_state P t = Some (Some info)" "clientId info \<noteq> []"
    and "addApprovedClient P req (clientId info) (COOKIE_ENCRYPTION_KEY e)
           = Inr approvedClientCookie"
  shows "fst (authorize_post P e uuid now req w) =
           \<lparr>status = 302, body = NoBody,
            headers =
              [(js ''set-cookie'',
                js ''__Host-session='' @ hex_of_bytes (sha256_digest P uuid)
                  @ js ''; HttpOnly; Secure; SameSite=Lax; Path=/; Max-Age=600''),
               (js ''location'',
                js ''https://access.line.me/oauth2/v2.1/authorize?response_type=code&client_id=''
                  @ form_urlencode (LINE_CHANNEL_ID e)
                  @ js ''&redirect_uri='' @ form_urlencode (getCallbackUrl req)
                  @ js ''&state='' @ form_urlencode uuid
                  @ js ''&scope=profile+openid'')]\<rparr>
       \<and> set_cookies (fst (authorize_post P e uuid now req w)) =
           [js ''__Host-session='' @ hex_of_bytes (sha256_digest P uuid)
              @ js ''; HttpOnly; Secure; SameSite=Lax; Path=/; Max-Age=600'']
       \<and> approvedClientCookie \<notin> set (set_cookies (fst (authorize_post P e uuid now req w)))
       \<and> kv (snd (authorize_post P e uuid now req w)) (js ''oauth_state:'' @ uuid)
           = Some (stringify_request P info, now + 600)"
proof -
  let ?session = "js ''__Host-session='' @ hex_of_bytes (sha256_digest P uuid)
                    @ js ''; HttpOnly; Secure; SameSite=Lax; Path=/; Max-Age=600''"
  have run: "authorize_post P e uuid now req w =
          (redirectToLine req uuid (LINE_CHANNEL_ID e) [(js ''set-cookie'', ?session)],
           kv_put now (js ''oauth_state:'' @ uuid) (stringify_request P info) 600 w)"
    using assms
    by (simp add: authorize_post_def createOAuthState_def fromEntries_two_cookies
          bindStateToSession_def sha256_def Let_def)
  obtain encoded where
    "approvedClientCookie = js ''__Host-approved='' @ encoded
       @ js ''; HttpOnly; Secure; SameSite=Lax; Path=/; Max-Age=31536000''"
    using assms(7)
    by (auto simp: addApprovedClient_def Let_def split: sum.splits option.splits)
  then have differ: "approvedClientCookie \<noteq> ?session" by (simp add: js_def)
  show ?thesis
    using differ
    by (simp add: run redirectToLine_one_cookie set_cookies_def kv_put_def)
qed

section \<open>Runs on the example requests\<close>

theorem save_then_consume_witness:
  "fst (validateOAuthState toy_platform 10
          (callback_request (js ''tok-1'') (Some (js ''__Host-session=746f6b2d31''))) stored_world)
     = Inr (example_info, clearCookie)
   \<and> fst (validateOAuthState toy_platform 20
          (callback_request (js ''tok-1'') (Some (js ''__Host-session=746f6b2d31'')))
          (snd (validateOAuthState toy_platform 10
             (callback_request (js ''tok-1'') (Some (js ''__Host-session=746f6b2d31''))) stored_world)))
     = Inl (OAuthError 400 (js ''Invalid or expired state''))"
proof -
  let ?req = "callback_request (js ''tok-1'') (Some (js ''__Host-session=746f6b2d31''))"
  have h1: "js ''tok-1'' \<noteq> []" by simp
  have h2: "sha256_digest toy_platform (js ''tok-1'') \<noteq> []" by code_simp
  have h3: "stringify_request toy_platform example_info \<noteq> []" by code_simp
  have h4: "parse_request toy_platform (stringify_request toy_platform example_info)
              = Some example_info"
    by code_simp
  have h5: "createOAuthState toy_platform (js ''tok-1'') 0 example_info 600 empty_world
              = (js ''tok-1'', stored_world)"
    by (simp add: stored_world_def createOAuthState_def)
  have h6: "map_of (url_query ?req) (js ''state'') = Some (js ''tok-1'')" by code_simp
  have h7: "request_cookies ?req (js ''__Host-session'') = Some (sha256 toy_platform (js ''tok-1''))"
    by code_simp
  have h8: "(10::nat) < 0 + 600" by simp
  from save_then_consume[OF h1 h2 h3 h4 h5 h6 h7 h8, of 20] show ?thesis by blast
qed

theorem csrf_missing_cookie_counterexample:
  "validateCSRFToken (authorize_request None [(js ''csrf_token'', FormString (js ''csrf-1''))])
     = Inl (OAuthError 403 (js ''CSRF token mismatch''))
   \<and> fst (authorize_post toy_platform example_env (js ''tok-1'') 0
            (authorize_request None [(js ''csrf_token'', FormString (js ''csrf-1''))]) empty_world)
     = toResponse 403 (js ''CSRF token mismatch'')"
  by code_simp

theorem csrf_validation_outcomes_witness:
  "validateCSRFToken (authorize_request (Some (js ''__Host-csrf=csrf-1'')) [])
     = Inl (OAuthError 400 (js ''Missing CSRF token''))
   \<and> validateCSRFToken (authorize_request (Some (js ''__Host-csrf=csrf-2''))
          [(js ''csrf_token'', FormString (js ''csrf-1''))])
     = Inl (OAuthError 403 (js ''CSRF token mismatch''))
   \<and> validateCSRFToken (authorize_request (Some (js ''__Host-csrf=csrf-1''))
          [(js ''csrf_token'', FormString (js ''csrf-1''))]) = Inr ()"
proof -
  let ?a = "authorize_request (Some (js ''__Host-csrf=csrf-1'')) []"
  let ?b = "authorize_request (Some (js ''__Host-csrf=csrf-2'')) [(js ''csrf_token'', FormString (js ''csrf-1''))]"
  let ?c = "authorize_request (Some (js ''__Host-csrf=csrf-1'')) [(js ''csrf_token'', FormString (js ''csrf-1''))]"
  have a: "submitted_token ?a = None" by code_simp
  have b: "submitted_token ?b = Some (js ''csrf-1'') \<and> request_cookies ?b (js ''__Host-csrf'') \<noteq> Some (js ''csrf-1'')"
    by code_simp
  have c: "submitted_token ?c = Some (js ''csrf-1'') \<and> request_cookies ?c (js ''__Host-csrf'') = Some (js ''csrf-1'')"
    by code_simp
  from csrf_validation_outcomes[of ?a toy_platform example_env "js ''tok-1''" 0 empty_world] a
  have 1: "validateCSRFToken ?a = Inl (OAuthError 400 (js ''Missing CSRF token''))" by blast
  from csrf_validation_outcomes[of ?b toy_platform example_env "js ''tok-1''" 0 empty_world] b
  have 2: "validateCSRFToken ?b = Inl (OAuthError 403 (js ''CSRF token mismatch''))" by blast
  from csrf_validation_outcomes[of ?c toy_platform example_env "js ''tok-1''" 0 empty_world] c
  have 3: "validateCSRFToken ?c = Inr ()" by blast
  from 1 2 3 show ?thesis by simp
qed

theorem session_binding_roundtrip_witness:
  "KvGet (js ''oauth_state:tok-1'') \<in> set (trace (snd (validateOAuthState toy_platform 10
       (callback_request (js ''tok-1'') (Some (js ''__Host-session=746f6b2d31''))) stored_world)))
   \<and> validateOAuthState toy_platform 10
       (callback_request (js ''tok-1'') (Some (js ''__Host-session=746f6b2d32''))) stored_world
     = (Inl (OAuthError 403 (js ''Session binding mismatch'')), stored_world)"
proof -
  let ?req = "callback_request (js ''tok-1'') (Some (js ''__Host-session=746f6b2d31''))"
  let ?req' = "callback_request (js ''tok-1'') (Some (js ''__Host-session=746f6b2d32''))"
  have h1: "js ''tok-1'' \<noteq> []" by simp
  have h2: "sha256_digest toy_platform (js ''tok-1'') \<noteq> []" by code_simp
  have h3: "sha256_digest toy_platform (js ''tok-2'') \<noteq> []" by code_simp
  have h4: "sha256 toy_platform (js ''tok-2'') \<noteq> sha256 toy_platform (js ''tok-1'')" by code_simp
  have h5: "map_of (url_query ?req) (js ''state'') = Some (js ''tok-1'')" by code_simp
  have h6: "map_of (url_query ?req') (js ''state'') = Some (js ''tok-1'')" by code_simp
  have h7: "cookie_header ?req = Some (cookie_pair (bindStateToSession toy_platform (js ''tok-1'')))"
    by code_simp
  have h8: "cookie_header ?req' = Some (cookie_pair (bindStateToSession toy_platform (js ''tok-2'')))"
    by code_simp
  have k: "js ''oauth_state:'' @ js ''tok-1'' = js ''oauth_state:tok-1''" by (simp add: js_def)
  from session_binding_roundtrip[OF h1 h2 h3 h4 h5 h6 h7 h8, of 10 stored_world]
  show ?thesis by (simp add: k)
qed

theorem failed_binding_leaves_store_witness:
  "snd (validateOAuthState toy_platform 10
          (callback_request (js ''tok-1'') (Some (js ''__Host-session=746f6b2d32''))) stored_world)
     = stored_world
   \<and> fst (validateOAuthState toy_platform 20
          (callback_request (js ''tok-1'') (Some (js ''__Host-session=746f6b2d31'')))
          (snd (validateOAuthState toy_platform 10
             (callback_request (js ''tok-1'') (Some (js ''__Host-session=746f6b2d32''))) stored_world)))
     = Inr (example_info, clearCookie)"
proof -
  let ?bad = "callback_request (js ''tok-1'') (Some (js ''__Host-session=746f6b2d32''))"
  let ?good = "callback_request (js ''tok-1'') (Some (js ''__Host-session=746f6b2d31''))"
  have h1: "falsy (map_of (url_query ?bad) (js ''state''))
         \<or> falsy (request_cookies ?bad (js ''__Host-session''))
         \<or> (\<exists>t. map_of (url_query ?bad) (js ''state'') = Some t
                \<and> request_cookies ?bad (js ''__Host-session'') \<noteq> Some (sha256 toy_platform t))"
  proof -
    have "map_of (url_query ?bad) (js ''state'') = Some (js ''tok-1'')
        \<and> request_cookies ?bad (js ''__Host-session'') \<noteq> Some (sha256 toy_platform (js ''tok-1''))"
      by code_simp
    then show ?thesis by blast
  qed
  have h2: "map_of (url_query ?good) (js ''state'') = Some (js ''tok-1'')" by code_simp
  have h3: "js ''tok-1'' \<noteq> []" by simp
  have h4: "request_cookies ?good (js ''__Host-session'') = Some (sha256 toy_platform (js ''tok-1''))"
    by code_simp
  have h5: "sha256_digest toy_platform (js ''tok-1'') \<noteq> []" by code_simp
  have h6: "kv stored_world (js ''oauth_state:'' @ js ''tok-1'')
              = Some (toy_stringify_request example_info, 600)"
    by code_simp
  have h7: "(20::nat) < 600" by simp
  have h8: "toy_stringify_request example_info \<noteq> []" by code_simp
  have h9: "parse_request toy_platform (toy_stringify_request example_info) = Some example_info"
    by code_simp
  from failed_binding_leaves_store[OF h1 h2 h3 h4 h5 h6 h7 h8 h9, of 10]
  show ?thesis by blast
qed

theorem callback_failure_counterexample:
  "fst (callback toy_platform example_env (example_services True) 10
          (callback_request (js ''tok-1'') (Some (js ''__Host-session=00''))) stored_world)
     = Inr \<lparr>status = 403, body = Text (js ''Session binding mismatch''), headers = []\<rparr>
   \<and> set_cookies \<lparr>status = 403, body = Text (js ''Session binding mismatch''), headers = []\<rparr> = []"
  by code_simp

theorem callback_set_cookie_witness:
  "fst (callback toy_platform example_env (example_services True) 10
          (callback_request (js ''tok-1'') (Some (js ''__Host-session=00''))) stored_world)
     = Inr \<lparr>status = 403, body = Text (js ''Session binding mismatch''), headers = []\<rparr>
   \<and> set_cookies \<lparr>status = 403, body = Text (js ''Session binding mismatch''), headers = []\<rparr>
     = []
   \<and> fst (callback toy_platform example_env (example_services True) 10
          (callback_request (js ''tok-1'') (Some (js ''__Host-session=746f6b2d31''))) stored_world)
     = Inr \<lparr>status = 302, body = NoBody,
            headers = [(js ''location'', js ''https://client.example/cb?code=issued''),
                       (js ''set-cookie'', clearCookie)]\<rparr>
   \<and> set_cookies \<lparr>status = 302, body = NoBody,
         headers = [(js ''location'', js ''https://client.example/cb?code=issued''),
                    (js ''set-cookie'', clearCookie)]\<rparr> = [clearCookie]"
proof -
  let ?r1 = "\<lparr>status = 403, body = Text (js ''Session binding mismatch''), headers = []\<rparr>"
  let ?r2 = "\<lparr>status = 302, body = NoBody,
         headers = [(js ''location'', js ''https://client.example/cb?code=issued''),
                    (js ''set-cookie'', clearCookie)]\<rparr>"
  have h1: "fst (callback toy_platform example_env (example_services True) 10
          (callback_request (js ''tok-1'') (Some (js ''__Host-session=00''))) stored_world) = Inr ?r1"
    by code_simp
  have h2: "fst (callback toy_platform example_env (example_services True) 10
          (callback_request (js ''tok-1'') (Some (js ''__Host-session=746f6b2d31''))) stored_world) = Inr ?r2"
    by code_simp
  from callback_set_cookie[OF h1] callback_set_cookie[OF h2] h1 h2 show ?thesis by simp
qed

theorem corrupt_state_counterexample:
  "fst (validateOAuthState toy_platform 10
          (callback_request (js ''tok-1'') (Some (js ''__Host-session=746f6b2d31''))) corrupt_world)
     = Inl SyntaxError
   \<and> fst (callback toy_platform example_env (example_services True) 10
          (callback_request (js ''tok-1'') (Some (js ''__Host-session=746f6b2d31''))) corrupt_world)
     = Inr \<lparr>status = 500, body = Text (js ''Internal server error''), headers = []\<rparr>"
  by code_simp

theorem corrupt_state_generic_failure_witness:
  "fst (validateOAuthState toy_platform 10
          (callback_request (js ''tok-1'') (Some (js ''__Host-session=746f6b2d31''))) corrupt_world)
     = Inl SyntaxError
   \<and> kv (snd (validateOAuthState toy_platform 10
          (callback_request (js ''tok-1'') (Some (js ''__Host-session=746f6b2d31''))) corrupt_world))
        (js ''oauth_state:tok-1'') = None
   \<and> fst (callback toy_platform example_env (example_services True) 10
          (callback_request (js ''tok-1'') (Some (js ''__Host-session=746f6b2d31''))) corrupt_world)
     = Inr (c_text (js ''Internal server error'') 500)"
proof -
  let ?req = "callback_request (js ''tok-1'') (Some (js ''__Host-session=746f6b2d31''))"
  have h1: "map_of (url_query ?req) (js ''state'') = Some (js ''tok-1'')" by code_simp
  have h2: "js ''tok-1'' \<noteq> []" by simp
  have h3: "request_cookies ?req (js ''__Host-session'') = Some (sha256 toy_platform (js ''tok-1''))"
    by code_simp
  have h4: "sha256_digest toy_platform (js ''tok-1'') \<noteq> []" by code_simp
  have h5: "kv corrupt_world (js ''oauth_state:'' @ js ''tok-1'') = Some (js ''{'', 600)" by code_simp
  have h6: "(10::nat) < 600" by simp
  have h7: "js ''{'' \<noteq> []" by simp
  have h8: "parse_request toy_platform (js ''{'') = None" by code_simp
  have k: "js ''oauth_state:'' @ js ''tok-1'' = js ''oauth_state:tok-1''" by (simp add: js_def)
  from corrupt_state_generic_failure[OF h1 h2 h3 h4 h5 h6 h7 h8,
         of example_env "example_services True"]
  show ?thesis by (simp add: k)
qed

theorem account_not_linked_witness:
  "fst (callback toy_platform example_env (example_services False) 10
          (callback_request (js ''tok-1'') (Some (js ''__Host-session=746f6b2d31''))) stored_world)
     = Inr \<lparr>status = 403,
            body = Text (js ''Account not found. Please register via the app first.''),
            headers = []\<rparr>
   \<and> issued (snd (callback toy_platform example_env (example_services False) 10
          (callback_request (js ''tok-1'') (Some (js ''__Host-session=746f6b2d31''))) stored_world))
     = issued stored_world"
proof -
  let ?req = "callback_request (js ''tok-1'') (Some (js ''__Host-session=746f6b2d31''))"
  let ?svc = "example_services False"
  let ?q = "\<lparr>grant_type = js ''authorization_code'', tq_code = js ''good-code'',
             redirect_uri = getCallbackUrl ?req, client_id = LINE_CHANNEL_ID example_env,
             client_secret = LINE_CHANNEL_SECRET example_env\<rparr>"
  let ?prof = "\<lparr>userId = js ''U4af4980629'', displayName = js ''Taro'', pictureUrl = None\<rparr>"
  have h1: "fst (validateOAuthState toy_platform 10 ?req stored_world)
              = Inr (example_info, clearCookie)" by code_simp
  have h2: "clientId example_info \<noteq> []" by code_simp
  have h3: "map_of (url_query ?req) (js ''code'') = Some (js ''good-code'')" by code_simp
  have h4: "js ''good-code'' \<noteq> []" by simp
  have h5: "tr_ok (line_token_fetch ?svc ?q)" by code_simp
  have h6: "tr_json (line_token_fetch ?svc ?q) = Some (Some (js ''line-token''))" by code_simp
  have h7: "js ''line-token'' \<noteq> []" by simp
  have h8: "pr_ok (line_profile_fetch ?svc (js ''line-token''))" by code_simp
  have h9: "pr_json (line_profile_fetch ?svc (js ''line-token'')) = Some ?prof" by code_simp
  have h10: "signInWithPassword ?svc (SUPABASE_URL example_env) (SUPABASE_ANON_KEY example_env)
           (userId ?prof @ js ''@line.com'') (COMMON_PASSWORD_PREFIX example_env @ take 6 (userId ?prof))
           = Inl (js ''Invalid login credentials'')" by code_simp
  from account_not_linked[OF h1 h2 h3 h4 h5 h6 h7 h8 h9 h10]
  show ?thesis by simp
qed

lemma post_form_csrf:
  "validateCSRFToken (authorize_request (Some (js ''__Host-csrf=csrf-1'')) post_form) = Inr ()"
  by code_simp

lemma post_form_state:
  "map_of (form_data (authorize_request (Some (js ''__Host-csrf=csrf-1'')) post_form)) (js ''state'')
     = Some (FormString (js ''eyJvYXV0aFJlcUluZm8iOnsicmVzcG9uc2VUeXBlIjoiY29kZSIsImNsaWVudElkIjoiYWJjIiwicmVkaXJlY3RVcmkiOiJodHRwczovL2NsaWVudC5leGFtcGxlL2NiIiwic2NvcGUiOlsicmVhZCJdLCJzdGF0ZSI6Inh5eiJ9fQ==''))"
  by (simp add: authorize_request_def post_form_def)

lemma post_form_decodes:
  "atob (js ''eyJvYXV0aFJlcUluZm8iOnsicmVzcG9uc2VUeXBlIjoiY29kZSIsImNsaWVudElkIjoiYWJjIiwicmVkaXJlY3RVcmkiOiJodHRwczovL2NsaWVudC5leGFtcGxlL2NiIiwic2NvcGUiOlsicmVhZCJdLCJzdGF0ZSI6Inh5eiJ9fQ=='')
     = Some (toy_stringify_state example_info)"
  by code_simp

lemma post_state_parses:
  "parse_state toy_platform (toy_stringify_state example_info) = Some (Some example_info)"
  by code_simp

lemma post_form_approval_cookie:
  "addApprovedClient toy_platform
     (authorize_request (Some (js ''__Host-csrf=csrf-1'')) post_form)
     (clientId example_info) (COOKIE_ENCRYPTION_KEY example_env)
   = Inr (js ''__Host-approved=%5B%22abc%22%5D%7C636f6f6b69652d6b65795b22616263225d; HttpOnly; Secure; SameSite=Lax; Path=/; Max-Age=31536000'')"
  by code_simp

lemma example_session_hash:
  "hex_of_bytes (sha256_digest toy_platform (js ''tok-1'')) = js ''746f6b2d31''"
  by code_simp

lemma example_url_parts:
  "form_urlencode (LINE_CHANNEL_ID example_env) = js ''1234567890''"
  "form_urlencode (getCallbackUrl (authorize_request cookie form))
     = js ''https%3A%2F%2Fmcp.example%2Fcallback''"
  "form_urlencode (js ''tok-1'') = js ''tok-1''"
  by code_simp+

theorem authorize_post_drops_approval_cookie_witness:
  "fst (authorize_post toy_platform example_env (js ''tok-1'') 0
          (authorize_request (Some (js ''__Host-csrf=csrf-1'')) post_form) empty_world)
     = \<lparr>status = 302, body = NoBody,
        headers =
          [(js ''set-cookie'',
            js ''__Host-session=746f6b2d31; HttpOnly; Secure; SameSite=Lax; Path=/; Max-Age=600''),
           (js ''location'',
            js ''https://access.line.me/oauth2/v2.1/authorize?response_type=code&client_id=1234567890&redirect_uri=https%3A%2F%2Fmcp.example%2Fcallback&state=tok-1&scope=profile+openid'')]\<rparr>
   \<and> set_cookies (fst (authorize_post toy_platform example_env (js ''tok-1'') 0
          (authorize_request (Some (js ''__Host-csrf=csrf-1'')) post_form) empty_world))
     = [js ''__Host-session=746f6b2d31; HttpOnly; Secure; SameSite=Lax; Path=/; Max-Age=600'']
   \<and> js ''__Host-approved=%5B%22abc%22%5D%7C636f6f6b69652d6b65795b22616263225d; HttpOnly; Secure; SameSite=Lax; Path=/; Max-Age=31536000''
       \<notin> set (set_cookies (fst (authorize_post toy_platform example_env (js ''tok-1'') 0
          (authorize_request (Some (js ''__Host-csrf=csrf-1'')) post_form) empty_world)))
   \<and> kv (snd (authorize_post toy_platform example_env (js ''tok-1'') 0
          (authorize_request (Some (js ''__Host-csrf=csrf-1'')) post_form) empty_world))
        (js ''oauth_state:tok-1'')
     = Some (toy_stringify_request example_info, 600)"
proof -
  have h3: "js ''eyJvYXV0aFJlcUluZm8iOnsicmVzcG9uc2VUeXBlIjoiY29kZSIsImNsaWVudElkIjoiYWJjIiwicmVkaXJlY3RVcmkiOiJodHRwczovL2NsaWVudC5leGFtcGxlL2NiIiwic2NvcGUiOlsicmVhZCJdLCJzdGF0ZSI6Inh5eiJ9fQ=='' \<noteq> []"
    by simp
  have h6: "clientId example_info \<noteq> []" by (simp add: example_info_def)
  have s: "stringify_request toy_platform example_info = toy_stringify_request example_info"
    by (simp add: toy_platform_def)
  have k: "js ''oauth_state:'' @ js ''tok-1'' = js ''oauth_state:tok-1''" by (simp add: js_def)
  have c: "js ''__Host-session='' @ js ''746f6b2d31''
             @ js ''; HttpOnly; Secure; SameSite=Lax; Path=/; Max-Age=600''
           = js ''__Host-session=746f6b2d31; HttpOnly; Secure; SameSite=Lax; Path=/; Max-Age=600''"
    by (simp add: js_def)
  have u: "js ''https://access.line.me/oauth2/v2.1/authorize?response_type=code&client_id=''
             @ js ''1234567890'' @ js ''&redirect_uri='' @ js ''https%3A%2F%2Fmcp.example%2Fcallback''
             @ js ''&state='' @ js ''tok-1'' @ js ''&scope=profile+openid''
           = js ''https://access.line.me/oauth2/v2.1/authorize?response_type=code&client_id=1234567890&redirect_uri=https%3A%2F%2Fmcp.example%2Fcallback&state=tok-1&scope=profile+openid''"
    by (simp add: js_def)
  have z: "(0::nat) + 600 = 600" by simp
  show ?thesis
    by (rule authorize_post_drops_approval_cookie[OF post_form_csrf post_form_state h3
         post_form_decodes post_state_parses h6 post_form_approval_cookie,
         of "js ''tok-1''" 0 empty_world,
         unfolded example_session_hash example_url_parts s k c u z])
qed

theorem authorize_get_malformed_cookie_throws_witness:
  "authorize_get toy_platform example_env (example_services True) (js ''tok-1'') 10
     (authorize_request (Some (js ''__Host-approved=%'')) []) empty_world
   = (Inl URIError, empty_world)"
proof -
  let ?req = "authorize_request (Some (js ''__Host-approved=%'')) []"
  have h1: "clientId (parseAuthRequest (example_services True) ?req) \<noteq> []" by code_simp
  have h2: "cookie_header ?req = Some (js ''__Host-approved=%'')"
    by (simp add: authorize_request_def)
  show ?thesis by (rule authorize_get_malformed_cookie_throws[OF h1 h2])
qed

text \<open>
  The three outcomes of \<open>GET /authorize\<close> on the example client: the returning user
  whose approval cookie holds the client id, the first visit, and a request whose
  \<open>state\<close> parameter is the one character U+3042.
\<close>

lemma approved_cookie_made:
  "addApprovedClient toy_platform (authorize_request None []) (js ''abc'') (js ''cookie-key'')
     = Inr (approved_cookie @ js ''; HttpOnly; Secure; SameSite=Lax; Path=/; Max-Age=31536000'')"
  by code_simp

lemma returning_user_run:
  "authorize_get toy_platform example_env (example_services True) (js ''tok-1'') 10
     (authorize_request (Some approved_cookie) []) empty_world
   = (Inr \<lparr>status = 302, body = NoBody,
          headers =
            [(js ''set-cookie'',
              js ''__Host-session=746f6b2d31; HttpOnly; Secure; SameSite=Lax; Path=/; Max-Age=600''),
             (js ''location'',
              js ''https://access.line.me/oauth2/v2.1/authorize?response_type=code&client_id=1234567890&redirect_uri=https%3A%2F%2Fmcp.example%2Fcallback&state=tok-1&scope=profile+openid'')]\<rparr>,
      \<lparr>kv = [js ''oauth_state:tok-1'' \<mapsto> (toy_stringify_request example_info, 610)],
       trace = [KvPut (js ''oauth_state:tok-1'') (toy_stringify_request example_info) 600]\<rparr>)"
proof -
  let ?svc = "example_services True"
  let ?req = "authorize_request (Some approved_cookie) []"
  have h1: "clientId (parseAuthRequest ?svc ?req) \<noteq> []" by code_simp
  have h2: "isClientApproved toy_platform ?req (clientId (parseAuthRequest ?svc ?req))
              (COOKIE_ENCRYPTION_KEY example_env) = Inr True" by code_simp
  have i: "parseAuthRequest ?svc ?req = example_info" by (simp add: example_services_def)
  have s: "stringify_request toy_platform example_info = toy_stringify_request example_info"
    by (simp add: toy_platform_def)
  have k: "js ''oauth_state:'' @ js ''tok-1'' = js ''oauth_state:tok-1''" by (simp add: js_def)
  have c: "js ''__Host-session='' @ js ''746f6b2d31''
             @ js ''; HttpOnly; Secure; SameSite=Lax; Path=/; Max-Age=600''
           = js ''__Host-session=746f6b2d31; HttpOnly; Secure; SameSite=Lax; Path=/; Max-Age=600''"
    by (simp add: js_def)
  have u: "js ''https://access.line.me/oauth2/v2.1/authorize?response_type=code&client_id=''
             @ js ''1234567890'' @ js ''&redirect_uri='' @ js ''https%3A%2F%2Fmcp.example%2Fcallback''
             @ js ''&state='' @ js ''tok-1'' @ js ''&scope=profile+openid''
           = js ''https://access.line.me/oauth2/v2.1/authorize?response_type=code&client_id=1234567890&redirect_uri=https%3A%2F%2Fmcp.example%2Fcallback&state=tok-1&scope=profile+openid''"
    by (simp add: js_def)
  from authorize_get_approved[OF h1 h2, of "js ''tok-1''" 10 empty_world]
  show ?thesis
    by (simp add: example_session_hash example_url_parts i s k c u empty_world_def)
qed

lemma first_visit_run:
  "authorize_get toy_platform example_env (example_services True) (js ''tok-1'') 10
     (authorize_request None []) empty_world
   = (Inr \<lparr>status = 200,
          body = ApprovalDialog
            \<lparr>page_server_name = js ''My MCP Server'',
             page_server_description = js ''Your service description here'',
             page_client_name = js ''Example client'',
             page_csrf_token = js ''tok-1'',
             page_state = js ''eyJvYXV0aFJlcUluZm8iOnsicmVzcG9uc2VUeXBlIjoiY29kZSIsImNsaWVudElkIjoiYWJjIiwicmVkaXJlY3RVcmkiOiJodHRwczovL2NsaWVudC5leGFtcGxlL2NiIiwic2NvcGUiOlsicmVhZCJdLCJzdGF0ZSI6Inh5eiJ9fQ==''\<rparr>,
          headers =
            [(js ''content-type'', js ''text/html; charset=utf-8''),
             (js ''set-cookie'',
              js ''__Host-csrf=tok-1; HttpOnly; Secure; SameSite=Strict; Path=/'')]\<rparr>,
      empty_world)"
proof -
  let ?svc = "example_services True"
  let ?req = "authorize_request None []"
  have h1: "clientId (parseAuthRequest ?svc ?req) \<noteq> []" by code_simp
  have h2: "isClientApproved toy_platform ?req (clientId (parseAuthRequest ?svc ?req))
              (COOKIE_ENCRYPTION_KEY example_env) = Inr False" by code_simp
  have h3: "btoa (stringify_state toy_platform (parseAuthRequest ?svc ?req))
              = Some (js ''eyJvYXV0aFJlcUluZm8iOnsicmVzcG9uc2VUeXBlIjoiY29kZSIsImNsaWVudElkIjoiYWJjIiwicmVkaXJlY3RVcmkiOiJodHRwczovL2NsaWVudC5leGFtcGxlL2NiIiwic2NvcGUiOlsicmVhZCJdLCJzdGF0ZSI6Inh5eiJ9fQ=='')"
    by code_simp
  have n: "sanitizeText (js ''My MCP Server'') = js ''My MCP Server''"
    "sanitizeText (js ''Your service description here'') = js ''Your service description here''"
    "sanitizeText
       (or_default
          (case lookupClient ?svc (clientId (parseAuthRequest ?svc ?req)) of
             None \<Rightarrow> None | Some c \<Rightarrow> clientName c)
          (or_default
             (case lookupClient ?svc (clientId (parseAuthRequest ?svc ?req)) of
                None \<Rightarrow> None | Some c \<Rightarrow> client_clientId c)
             (js ''Unknown Client''))) = js ''Example client''"
    by code_simp+
  have c: "js ''__Host-csrf='' @ js ''tok-1'' @ js ''; HttpOnly; Secure; SameSite=Strict; Path=/''
           = js ''__Host-csrf=tok-1; HttpOnly; Secure; SameSite=Strict; Path=/''"
    by (simp add: js_def)
  from authorize_get_consent[OF h1 h2 h3, of "js ''tok-1''" 10 empty_world]
  show ?thesis by (simp only: n c)
qed

lemma wide_state_run:
  "authorize_get toy_platform example_env
     ((example_services True)\<lparr>parseAuthRequest := (\<lambda>r. example_info\<lparr>state := [0x3042]\<rparr>)\<rparr>)
     (js ''tok-1'') 10 (authorize_request None []) empty_world
   = (Inl InvalidCharacterError, empty_world)"
proof -
  let ?svc = "(example_services True)\<lparr>parseAuthRequest := (\<lambda>r. example_info\<lparr>state := [0x3042]\<rparr>)\<rparr>"
  let ?req = "authorize_request None []"
  have h1: "clientId (parseAuthRequest ?svc ?req) \<noteq> []" by code_simp
  have h2: "isClientApproved toy_platform ?req (clientId (parseAuthRequest ?svc ?req))
              (COOKIE_ENCRYPTION_KEY example_env) = Inr False" by code_simp
  have h3: "0x3042 \<in> set (stringify_state toy_platform (parseAuthRequest ?svc ?req))"
    by code_simp
  have h4: "(0xFF :: code_unit) < 0x3042" by simp
  show ?thesis by (rule authorize_get_consent_throws[OF h1 h2 h3 h4])
qed

end
